theory Spec2Isabelle
  imports Complex_Main
begin

section \<open>HiveMind SDK: the protocol client over an external chain\<close>

text \<open>
  The repository holds two copies of the client class \<open>HiveMind\<close>:
  \<^item> \<open>client.ts\<close> (with \<open>constants.ts\<close>, \<open>types.ts\<close>, \<open>abi.ts\<close>), whose functions keep
    their source names here (\<open>ensureApproval\<close>, \<open>fundProject\<close>, \<open>getAgent\<close>, ...);
  \<^item> a single-file SDK with hard-wired addresses, whose functions carry the suffix
    \<open>_sf\<close> (\<open>approveUsdc_sf\<close>, \<open>fundProject_sf\<close>, \<open>getAgent_sf\<close>, ...).

  What lies outside the repository is either a parameter of the model (the chain behind
  the RPC endpoint, an abstract state \<open>'s\<close> with read, submit and confirm functions, and
  viem's \<open>privateKeyToAccount\<close>) or modelled from the specification (the conversions
  between JavaScript numbers and smallest-unit integers). Every call on the RPC surface is
  appended to a log, so that "which calls are made, and in which order" is a property of
  the returned world.
\<close>

subsection \<open>Values\<close>

type_synonym address = string
type_synonym hash = string

text \<open>Whatever the RPC client, the contract or a library function throws.\<close>

datatype error =
    TransportError string
  | ContractReverted string
  | InvalidDecimalNumber
  | InvalidPrivateKey

text \<open>The tuple \<open>agents(wallet)\<close> returns, in ABI order; \<open>uint256\<close> values are naturals.\<close>

record agent_tuple =
  t_wallet :: address
  t_nodeId :: string
  t_creditsContributed :: nat
  t_computeScore :: nat
  t_joinedAt :: nat
  t_active :: bool

text \<open>The tuple \<open>projects(projectId)\<close> returns; \<open>status\<close> is a \<open>uint8\<close>.\<close>

record project_tuple =
  p_name :: string
  p_repoUrl :: string
  p_creator :: address
  p_totalFunding :: nat
  p_createdAt :: nat
  p_status :: nat

record receipt =
  r_transactionHash :: hash
  r_blockNumber :: nat

subsection \<open>JavaScript numbers that hold integers\<close>

text \<open>
  \<open>Number(x)\<close> of a non-negative bigint is the nearest binary64 value, ties to the even
  significand. Up to \<open>2 ^ 53\<close> every integer is representable; above, the value keeps its
  53 leading bits. (All bigints converted by the client are \<open>uint256\<close>, far below the
  binary64 overflow threshold.)
\<close>

fun bit_length :: "nat \<Rightarrow> nat" where
  "bit_length n = (if n = 0 then 0 else Suc (bit_length (n div 2)))"

declare bit_length.simps [simp del]

definition round_binary64 :: "nat \<Rightarrow> nat" where
  "round_binary64 n =
     (if n \<le> 2 ^ 53 then n
      else let e = bit_length n - 53;
               q = n div 2 ^ e;
               r = n mod 2 ^ e;
               half = 2 ^ (e - 1)
           in (if r < half then q
               else if half < r then q + 1
               else if even q then q else q + 1) * 2 ^ e)"

definition Number_of_bigint :: "nat \<Rightarrow> nat" where
  "Number_of_bigint n = round_binary64 n"

text \<open>\<open>a - 1\<close> and \<open>a * 1000\<close> on integer-valued numbers: the exact result, rounded.\<close>

definition js_minus_one :: "nat \<Rightarrow> int" where
  "js_minus_one a = (if a = 0 then - 1 else int (round_binary64 (a - 1)))"

definition js_times_1000 :: "nat \<Rightarrow> nat" where
  "js_times_1000 a = round_binary64 (a * 1000)"

text \<open>\<open>new Date(ms)\<close>: a time value beyond 8.64e15 milliseconds is an invalid date.\<close>

datatype js_date = Date nat | InvalidDate

definition new_Date :: "nat \<Rightarrow> js_date" where
  "new_Date ms = (if ms \<le> 8640000000000000 then Date ms else InvalidDate)"

subsection \<open>constants.ts\<close>

datatype SupportedChain = base | baseSepolia

record contract_addresses =
  hivemind :: address
  usdc :: address

record chain_config =
  chain_id :: nat
  chain_name :: string
  chain_rpcUrl :: string
  chain_explorer :: string

fun CONTRACTS :: "SupportedChain \<Rightarrow> contract_addresses" where
  "CONTRACTS base =
     \<lparr>hivemind = ''0xA1021d8287Da2cdFAfFab57CDb150088179e5f5B'',
      usdc = ''0x833589fCD6eDb6E08f4c7C32D4f71b54bdA02913''\<rparr>"
| "CONTRACTS baseSepolia =
     \<lparr>hivemind = ''0x0000000000000000000000000000000000000000'',
      usdc = ''0x036CbD53842c5426634e7929541eC2318f3dCF7e''\<rparr>"

fun CHAINS :: "SupportedChain \<Rightarrow> chain_config" where
  "CHAINS base =
     \<lparr>chain_id = 8453, chain_name = ''Base'',
      chain_rpcUrl = ''https://mainnet.base.org'',
      chain_explorer = ''https://basescan.org''\<rparr>"
| "CHAINS baseSepolia =
     \<lparr>chain_id = 84532, chain_name = ''Base Sepolia'',
      chain_rpcUrl = ''https://sepolia.base.org'',
      chain_explorer = ''https://sepolia.basescan.org''\<rparr>"

definition USDC_DECIMALS :: nat where
  "USDC_DECIMALS = 6"

subsection \<open>Numbers and smallest units\<close>

text \<open>
  Modelled from the spec: viem's \<open>parseUnits\<close> and \<open>formatUnits\<close> and JavaScript's
  conversions between numbers and strings are outside the repository. Section 6 fixes
  the conversion as the scaling by \<open>10 ^ 6\<close> ("integers scaled by 10^6", "decimal values
  scaled by the same factor at the edge"); the rest is the documented behaviour of the
  libraries. A JavaScript number is modelled by the decimal value its string shows, a
  rational (\<open>NaN\<close> and the infinities, which \<open>parseUnits\<close> rejects, are left out).
  \<^item> \<open>x.toString()\<close> is in exponent notation (\<open>1e+21\<close>, \<open>1e-7\<close>) from \<open>10 ^ 21\<close> up and,
    for a number other than zero, below \<open>10 ^ -6\<close>; otherwise it is the plain decimal.
  \<^item> \<open>parseUnits(s, d)\<close> throws on a string in exponent notation. On a plain decimal it
    moves the point \<open>d\<close> places to the right and rounds the magnitude half up when more
    than \<open>d\<close> fractional digits are given; the sign is kept.
  \<^item> \<open>formatUnits(v, d)\<close> is the decimal string of \<open>v / 10 ^ d\<close>, and \<open>Number\<close> of it the
    number that shows this decimal (the nearest binary64 value).
  \<open>parseUnits_number x d\<close> stands for \<open>parseUnits(x.toString(), d)\<close> and
  \<open>formatUnits_number v d\<close> for \<open>Number(formatUnits(v, d))\<close>.
\<close>

type_synonym js_number = rat

definition exponent_notation :: "js_number \<Rightarrow> bool" where
  "exponent_notation x = (10 ^ 21 \<le> \<bar>x\<bar> \<or> (x \<noteq> 0 \<and> \<bar>x\<bar> < 1 / 10 ^ 6))"

definition round_half_up :: "rat \<Rightarrow> int" where
  "round_half_up q = \<lfloor>(2 * q + 1) / 2\<rfloor>"

definition parseUnits_number :: "js_number \<Rightarrow> nat \<Rightarrow> error + int" where
  "parseUnits_number x d =
     (if exponent_notation x then Inl InvalidDecimalNumber
      else Inr (if x < 0 then - round_half_up (\<bar>x\<bar> * 10 ^ d)
                else round_half_up (\<bar>x\<bar> * 10 ^ d)))"

definition formatUnits_number :: "nat \<Rightarrow> nat \<Rightarrow> js_number" where
  "formatUnits_number v d = of_nat v / 10 ^ d"

text \<open>The single-file SDK's own constants.\<close>

definition HIVEMIND_ADDRESS :: address where
  "HIVEMIND_ADDRESS = ''0xA1021d8287Da2cdFAfFab57CDb150088179e5f5B''"

definition USDC_ADDRESS :: address where
  "USDC_ADDRESS = ''0x833589fCD6eDb6E08f4c7C32D4f71b54bdA02913''"

subsection \<open>The RPC surface\<close>

text \<open>
  One constructor per contract function the client calls, with its arguments. Arguments
  the client computes are bigints (\<open>int\<close>): \<open>parseUnits\<close> of a negative number is
  negative, and it is the encoder behind \<open>writeContract\<close> that rejects it.
\<close>

datatype read_fn =
    Fn_balanceOf address
  | Fn_allowance address address
  | Fn_agents address
  | Fn_projects int
  | Fn_getContributors int
  | Fn_projectCount

datatype write_fn =
    Fn_approve address int
  | Fn_joinHive string int
  | Fn_createProject string string int
  | Fn_fundProject int int
  | Fn_recordContribution int address int
  | Fn_completeProject int
  | Fn_claimRewards int

datatype rpc_call =
    ReadContract address read_fn
  | WriteContract address write_fn
  | WaitForTransactionReceipt hash

text \<open>
  The environment: the chain over a state \<open>'s\<close> and the key derivation. Reads leave the
  chain state unchanged; submitting a transaction and waiting for its receipt may change
  it in any way (the contract's effect, other senders' transactions). \<open>first_settles\<close>
  answers, for two reads issued together, whether the first is answered before the
  second: it decides which rejection \<open>Promise.all\<close> reports when both are rejected.
\<close>

record 's env =
  privateKeyToAccount :: "string \<Rightarrow> error + address"
  read_uint :: "address \<Rightarrow> read_fn \<Rightarrow> 's \<Rightarrow> error + nat"
  read_agent :: "address \<Rightarrow> address \<Rightarrow> 's \<Rightarrow> error + agent_tuple"
  read_project :: "address \<Rightarrow> int \<Rightarrow> 's \<Rightarrow> error + project_tuple"
  read_contributors :: "address \<Rightarrow> int \<Rightarrow> 's \<Rightarrow> error + address list"
  submit :: "address \<Rightarrow> write_fn \<Rightarrow> 's \<Rightarrow> error + hash \<times> 's"
  confirm :: "hash \<Rightarrow> 's \<Rightarrow> error + receipt \<times> 's"
  first_settles :: "'s \<Rightarrow> bool"

record 's world =
  ledger :: 's
  calls :: "rpc_call list"

type_synonym ('s, 'a) io = "'s world \<Rightarrow> (error + 'a) \<times> 's world"

text \<open>\<open>const x = await m; k x\<close>: a rejected promise ends the function.\<close>

definition await :: "('s, 'a) io \<Rightarrow> ('a \<Rightarrow> ('s, 'b) io) \<Rightarrow> ('s, 'b) io" where
  "await m k w = (case m w of (Inl e, w') \<Rightarrow> (Inl e, w') | (Inr x, w') \<Rightarrow> k x w')"

definition return :: "'a \<Rightarrow> ('s, 'a) io" where
  "return x w = (Inr x, w)"

text \<open>A library call that may throw before anything reaches the RPC surface.\<close>

definition lift :: "error + 'a \<Rightarrow> ('s, 'a) io" where
  "lift r w = (r, w)"

definition logged :: "rpc_call \<Rightarrow> 's world \<Rightarrow> 's world" where
  "logged c w = w\<lparr>calls := calls w @ [c]\<rparr>"

definition readContract_uint :: "'s env \<Rightarrow> address \<Rightarrow> read_fn \<Rightarrow> ('s, nat) io" where
  "readContract_uint E a f w = (read_uint E a f (ledger w), logged (ReadContract a f) w)"

definition readContract_agents :: "'s env \<Rightarrow> address \<Rightarrow> address \<Rightarrow> ('s, agent_tuple) io" where
  "readContract_agents E a x w =
     (read_agent E a x (ledger w), logged (ReadContract a (Fn_agents x)) w)"

definition readContract_projects :: "'s env \<Rightarrow> address \<Rightarrow> int \<Rightarrow> ('s, project_tuple) io" where
  "readContract_projects E a i w =
     (read_project E a i (ledger w), logged (ReadContract a (Fn_projects i)) w)"

definition readContract_getContributors ::
  "'s env \<Rightarrow> address \<Rightarrow> int \<Rightarrow> ('s, address list) io" where
  "readContract_getContributors E a i w =
     (read_contributors E a i (ledger w), logged (ReadContract a (Fn_getContributors i)) w)"

definition writeContract :: "'s env \<Rightarrow> address \<Rightarrow> write_fn \<Rightarrow> ('s, hash) io" where
  "writeContract E a f w =
     (case submit E a f (ledger w) of
        Inl e \<Rightarrow> (Inl e, logged (WriteContract a f) w)
      | Inr (h, s') \<Rightarrow> (Inr h, logged (WriteContract a f) (w\<lparr>ledger := s'\<rparr>)))"

definition waitForTransactionReceipt :: "'s env \<Rightarrow> hash \<Rightarrow> ('s, receipt) io" where
  "waitForTransactionReceipt E h w =
     (case confirm E h (ledger w) of
        Inl e \<Rightarrow> (Inl e, logged (WaitForTransactionReceipt h) w)
      | Inr (r, s') \<Rightarrow> (Inr r, logged (WaitForTransactionReceipt h) (w\<lparr>ledger := s'\<rparr>)))"

text \<open>
  \<open>Promise.all([m1, m2])\<close>: both calls are issued before either is awaited, so the second
  is on the log even when the first is rejected. When both are rejected, the rejection
  reported is that of the call answered first (\<open>first\<close>: the first call is).
\<close>

definition promise_all2 :: "bool \<Rightarrow> ('s, 'a) io \<Rightarrow> ('s, 'b) io \<Rightarrow> ('s, 'a \<times> 'b) io" where
  "promise_all2 first m1 m2 w =
     (case m1 w of (r1, w1) \<Rightarrow>
        (case m2 w1 of (r2, w2) \<Rightarrow>
           (case r1 of
              Inl e1 \<Rightarrow>
                (case r2 of
                   Inl e2 \<Rightarrow> (Inl (if first then e1 else e2), w2)
                 | Inr y \<Rightarrow> (Inl e1, w2))
            | Inr x \<Rightarrow> (case r2 of Inl e2 \<Rightarrow> (Inl e2, w2) | Inr y \<Rightarrow> (Inr (x, y), w2)))))"

text \<open>
  A condition on the chain, not a part of the client: the token is an ERC-20 token whose
  \<open>approve(spender, v)\<close>, once submitted and confirmed, leaves \<open>allowance(owner, spender)\<close>
  at \<open>v\<close>. The clients rely on it and never check it: they do not look at the status of
  the receipt.
\<close>

definition honours_approve :: "'s env \<Rightarrow> address \<Rightarrow> address \<Rightarrow> address \<Rightarrow> bool" where
  "honours_approve E token owner spender \<longleftrightarrow>
     (\<forall>s v h sa r sb.
        submit E token (Fn_approve spender v) s = Inr (h, sa) \<longrightarrow>
        confirm E h sa = Inr (r, sb) \<longrightarrow>
        read_uint E token (Fn_allowance owner spender) sb = Inr (nat v))"

subsection \<open>types.ts\<close>

datatype ProjectStatus = Active | Completed | Cancelled

text \<open>The numeric value of each member of the TypeScript enum.\<close>

fun ProjectStatus_value :: "ProjectStatus \<Rightarrow> nat" where
  "ProjectStatus_value Active = 0"
| "ProjectStatus_value Completed = 1"
| "ProjectStatus_value Cancelled = 2"

record Agent =
  wallet :: address
  nodeId :: string
  creditsContributed :: nat
  computeScore :: nat
  joinedAt :: js_date
  active :: bool

text \<open>
  \<open>Project\<close>, with the type of \<open>status\<close> left open: \<open>client.ts\<close> stores the decoded
  \<open>uint8\<close> under a type cast (a number), the single-file SDK stores an entry of its
  \<open>statusMap\<close>, which is \<open>undefined\<close> (\<open>None\<close>) past the end of the array.
  An id is an integer-valued number; \<open>BigInt\<close> of any other number throws before a call
  is made.
\<close>

record 'st Project =
  pr_id :: int
  pr_name :: string
  pr_repoUrl :: string
  pr_creator :: address
  pr_totalFunding :: nat
  pr_createdAt :: js_date
  pr_status :: 'st
  pr_contributors :: "address list"

record CreateProjectOptions =
  o_name :: string
  o_repoUrl :: string
  o_funding :: js_number

record TxResult =
  hash :: hash
  blockNumber :: nat

record CreateProjectResult = TxResult +
  projectId :: int

subsection \<open>client.ts\<close>

record HiveMindConfig =
  privateKey :: string
  cfg_chain :: "SupportedChain option"
  cfg_rpcUrl :: "string option"

record client =
  account_address :: address
  client_chain :: SupportedChain
  hivemindAddress :: address
  usdcAddress :: address
  client_rpcUrl :: string

text \<open>The constructor's \<open>pk\<close>: the key with the prefix \<open>0x\<close> put in front unless it is there.\<close>

definition normalized_pk :: "string \<Rightarrow> string" where
  "normalized_pk k = (if take 2 k = ''0x'' then k else ''0x'' @ k)"

definition new_HiveMind :: "'s env \<Rightarrow> HiveMindConfig \<Rightarrow> error + client" where
  "new_HiveMind E config =
     (let ch = (case cfg_chain config of None \<Rightarrow> base | Some c \<Rightarrow> c);
          pk = normalized_pk (privateKey config)
      in case privateKeyToAccount E pk of
           Inl e \<Rightarrow> Inl e
         | Inr a \<Rightarrow>
             Inr \<lparr>account_address = a,
                  client_chain = ch,
                  hivemindAddress = hivemind (CONTRACTS ch),
                  usdcAddress = usdc (CONTRACTS ch),
                  client_rpcUrl =
                    (case cfg_rpcUrl config of None \<Rightarrow> chain_rpcUrl (CHAINS ch) | Some u \<Rightarrow> u)\<rparr>)"

text \<open>\<open>address ?? this.address\<close>\<close>

definition or_own :: "address option \<Rightarrow> client \<Rightarrow> address" where
  "or_own a c = (case a of None \<Rightarrow> account_address c | Some x \<Rightarrow> x)"


definition getAgent :: "'s env \<Rightarrow> client \<Rightarrow> address option \<Rightarrow> ('s, Agent option) io" where
  "getAgent E c a =
     await (readContract_agents E (hivemindAddress c) (or_own a c))
       (\<lambda>result.
          if t_joinedAt result = 0 then return None
          else return (Some
            \<lparr>wallet = t_wallet result,
             nodeId = t_nodeId result,
             creditsContributed = t_creditsContributed result,
             computeScore = t_computeScore result,
             joinedAt = new_Date (js_times_1000 (Number_of_bigint (t_joinedAt result))),
             active = t_active result\<rparr>))"

definition getProject :: "'s env \<Rightarrow> client \<Rightarrow> int \<Rightarrow> ('s, nat Project) io" where
  "getProject E c i =
     await (\<lambda>w. promise_all2 (first_settles E (ledger w))
              (readContract_projects E (hivemindAddress c) i)
              (readContract_getContributors E (hivemindAddress c) i) w)
       (\<lambda>(project, contributors).
          return
            \<lparr>pr_id = i,
             pr_name = p_name project,
             pr_repoUrl = p_repoUrl project,
             pr_creator = p_creator project,
             pr_totalFunding = p_totalFunding project,
             pr_createdAt = new_Date (js_times_1000 (Number_of_bigint (p_createdAt project))),
             pr_status = p_status project,
             pr_contributors = contributors\<rparr>)"

definition getProjectCount :: "'s env \<Rightarrow> client \<Rightarrow> ('s, nat) io" where
  "getProjectCount E c =
     await (readContract_uint E (hivemindAddress c) Fn_projectCount)
       (\<lambda>count. return (Number_of_bigint count))"

text \<open>
  Modelled from the spec: viem's \<open>parseUnits\<close> is a library function outside the
  repository. On a string of decimal digits with no fraction it is the scaling by
  \<open>10 ^ decimals\<close> of section 6 ("integers scaled by 10^6"); the one string the client
  passes itself is the literal \<open>'1000000'\<close>.
\<close>

definition parseUnits_whole :: "nat \<Rightarrow> nat \<Rightarrow> int" where
  "parseUnits_whole n d = int n * 10 ^ d"

definition ensureApproval :: "'s env \<Rightarrow> client \<Rightarrow> int \<Rightarrow> ('s, unit) io" where
  "ensureApproval E c amount =
     await (readContract_uint E (usdcAddress c)
              (Fn_allowance (account_address c) (hivemindAddress c)))
       (\<lambda>allowance.
          if int allowance < amount then
            await (writeContract E (usdcAddress c)
                     (Fn_approve (hivemindAddress c) (parseUnits_whole 1000000 USDC_DECIMALS)))
              (\<lambda>h. await (waitForTransactionReceipt E h) (\<lambda>_. return ()))
          else return ())"

text \<open>
  \<open>creditsToPool: number = 0\<close>: an omitted argument (\<open>None\<close>) is the number 0, whose
  string is \<open>'0'\<close>.
\<close>

definition join :: "'s env \<Rightarrow> client \<Rightarrow> string \<Rightarrow> js_number option \<Rightarrow> ('s, TxResult) io" where
  "join E c node creditsToPool =
     await (lift (case creditsToPool of
                    None \<Rightarrow> Inr (parseUnits_whole 0 USDC_DECIMALS)
                  | Some x \<Rightarrow> parseUnits_number x USDC_DECIMALS))
       (\<lambda>amount.
          await (if 0 < amount then ensureApproval E c amount else return ())
            (\<lambda>_. await (writeContract E (hivemindAddress c) (Fn_joinHive node amount))
               (\<lambda>h. await (waitForTransactionReceipt E h)
                  (\<lambda>receipt. return \<lparr>hash = h, blockNumber = r_blockNumber receipt\<rparr>))))"

definition createProject ::
  "'s env \<Rightarrow> client \<Rightarrow> CreateProjectOptions \<Rightarrow> ('s, CreateProjectResult) io" where
  "createProject E c options =
     await (lift (parseUnits_number (o_funding options) USDC_DECIMALS))
       (\<lambda>amount.
          await (if 0 < amount then ensureApproval E c amount else return ())
            (\<lambda>_. await (writeContract E (hivemindAddress c)
                          (Fn_createProject (o_name options) (o_repoUrl options) amount))
               (\<lambda>h. await (waitForTransactionReceipt E h)
                  (\<lambda>receipt. await (getProjectCount E c)
                     (\<lambda>projectCount.
                        return \<lparr>hash = h, blockNumber = r_blockNumber receipt,
                                projectId = js_minus_one projectCount\<rparr>)))))"

definition fundProject :: "'s env \<Rightarrow> client \<Rightarrow> int \<Rightarrow> js_number \<Rightarrow> ('s, TxResult) io" where
  "fundProject E c i amount =
     await (lift (parseUnits_number amount USDC_DECIMALS))
       (\<lambda>parsed.
          await (ensureApproval E c parsed)
            (\<lambda>_. await (writeContract E (hivemindAddress c) (Fn_fundProject i parsed))
               (\<lambda>h. await (waitForTransactionReceipt E h)
                  (\<lambda>receipt. return \<lparr>hash = h, blockNumber = r_blockNumber receipt\<rparr>))))"

definition recordContribution ::
  "'s env \<Rightarrow> client \<Rightarrow> int \<Rightarrow> address \<Rightarrow> int \<Rightarrow> ('s, TxResult) io" where
  "recordContribution E c i agent percentage =
     await (writeContract E (hivemindAddress c) (Fn_recordContribution i agent percentage))
       (\<lambda>h. await (waitForTransactionReceipt E h)
          (\<lambda>receipt. return \<lparr>hash = h, blockNumber = r_blockNumber receipt\<rparr>))"

definition completeProject :: "'s env \<Rightarrow> client \<Rightarrow> int \<Rightarrow> ('s, TxResult) io" where
  "completeProject E c i =
     await (writeContract E (hivemindAddress c) (Fn_completeProject i))
       (\<lambda>h. await (waitForTransactionReceipt E h)
          (\<lambda>receipt. return \<lparr>hash = h, blockNumber = r_blockNumber receipt\<rparr>))"

definition claimRewards :: "'s env \<Rightarrow> client \<Rightarrow> int \<Rightarrow> ('s, TxResult) io" where
  "claimRewards E c i =
     await (writeContract E (hivemindAddress c) (Fn_claimRewards i))
       (\<lambda>h. await (waitForTransactionReceipt E h)
          (\<lambda>receipt. return \<lparr>hash = h, blockNumber = r_blockNumber receipt\<rparr>))"

subsection \<open>The single-file SDK\<close>

text \<open>Its client holds the account only; the addresses are the two constants.\<close>

record client_sf =
  sf_address :: address

definition new_HiveMind_sf :: "'s env \<Rightarrow> HiveMindConfig \<Rightarrow> error + client_sf" where
  "new_HiveMind_sf E config =
     (case privateKeyToAccount E (privateKey config) of
        Inl e \<Rightarrow> Inl e
      | Inr a \<Rightarrow> Inr \<lparr>sf_address = a\<rparr>)"

definition getAgent_sf :: "'s env \<Rightarrow> client_sf \<Rightarrow> address \<Rightarrow> ('s, Agent option) io" where
  "getAgent_sf E c a =
     await (readContract_agents E HIVEMIND_ADDRESS a)
       (\<lambda>result.
          if \<not> t_active result then return None
          else return (Some
            \<lparr>wallet = t_wallet result,
             nodeId = t_nodeId result,
             creditsContributed = t_creditsContributed result,
             computeScore = t_computeScore result,
             joinedAt = new_Date (js_times_1000 (Number_of_bigint (t_joinedAt result))),
             active = t_active result\<rparr>))"

definition statusMap :: "string list" where
  "statusMap = [''Active'', ''Completed'', ''Cancelled'']"

text \<open>\<open>statusMap[i]\<close>: \<open>undefined\<close> past the end.\<close>

definition statusMap_at :: "nat \<Rightarrow> string option" where
  "statusMap_at i = (if i < length statusMap then Some (statusMap ! i) else None)"

definition getProject_sf ::
  "'s env \<Rightarrow> client_sf \<Rightarrow> int \<Rightarrow> ('s, string option Project) io" where
  "getProject_sf E c i =
     await (\<lambda>w. promise_all2 (first_settles E (ledger w))
              (readContract_projects E HIVEMIND_ADDRESS i)
              (readContract_getContributors E HIVEMIND_ADDRESS i) w)
       (\<lambda>(project, contributors).
          return
            \<lparr>pr_id = i,
             pr_name = p_name project,
             pr_repoUrl = p_repoUrl project,
             pr_creator = p_creator project,
             pr_totalFunding = p_totalFunding project,
             pr_createdAt = new_Date (js_times_1000 (Number_of_bigint (p_createdAt project))),
             pr_status = statusMap_at (p_status project),
             pr_contributors = contributors\<rparr>)"



definition approveUsdc_sf :: "'s env \<Rightarrow> client_sf \<Rightarrow> int \<Rightarrow> ('s, unit) io" where
  "approveUsdc_sf E c amount =
     await (readContract_uint E USDC_ADDRESS (Fn_allowance (sf_address c) HIVEMIND_ADDRESS))
       (\<lambda>allowance.
          if int allowance < amount then
            await (writeContract E USDC_ADDRESS
                     (Fn_approve HIVEMIND_ADDRESS (parseUnits_whole 1000000 6)))
              (\<lambda>h. await (waitForTransactionReceipt E h) (\<lambda>_. return ()))
          else return ())"

text \<open>
  The single-file client seen as a \<open>client.ts\<close> client: its account, on \<open>base\<close>, with the
  two constant addresses. \<open>approveUsdc\<close> is \<open>ensureApproval\<close> of that client.
\<close>

definition as_client :: "client_sf \<Rightarrow> client" where
  "as_client c =
     \<lparr>account_address = sf_address c, client_chain = base,
      hivemindAddress = HIVEMIND_ADDRESS, usdcAddress = USDC_ADDRESS,
      client_rpcUrl = ''https://mainnet.base.org''\<rparr>"

definition join_sf :: "'s env \<Rightarrow> client_sf \<Rightarrow> string \<Rightarrow> js_number option \<Rightarrow> ('s, hash) io" where
  "join_sf E c node creditsToPool =
     await (lift (case creditsToPool of
                    None \<Rightarrow> Inr (parseUnits_whole 0 6)
                  | Some x \<Rightarrow> parseUnits_number x 6))
       (\<lambda>amount.
          await (if 0 < amount then approveUsdc_sf E c amount else return ())
            (\<lambda>_. await (writeContract E HIVEMIND_ADDRESS (Fn_joinHive node amount))
               (\<lambda>h. await (waitForTransactionReceipt E h) (\<lambda>_. return h))))"

definition createProject_sf ::
  "'s env \<Rightarrow> client_sf \<Rightarrow> string \<Rightarrow> string \<Rightarrow> js_number \<Rightarrow> ('s, hash \<times> int) io" where
  "createProject_sf E c nm repo fundingUsdc =
     await (lift (parseUnits_number fundingUsdc 6))
       (\<lambda>amount.
          await (approveUsdc_sf E c amount)
            (\<lambda>_. await (writeContract E HIVEMIND_ADDRESS (Fn_createProject nm repo amount))
               (\<lambda>h. await (waitForTransactionReceipt E h)
                  (\<lambda>_. await (readContract_uint E HIVEMIND_ADDRESS Fn_projectCount)
                     (\<lambda>count. return (h, js_minus_one (Number_of_bigint count)))))))"

definition fundProject_sf :: "'s env \<Rightarrow> client_sf \<Rightarrow> int \<Rightarrow> js_number \<Rightarrow> ('s, hash) io" where
  "fundProject_sf E c i amountUsdc =
     await (lift (parseUnits_number amountUsdc 6))
       (\<lambda>amount.
          await (approveUsdc_sf E c amount)
            (\<lambda>_. await (writeContract E HIVEMIND_ADDRESS (Fn_fundProject i amount))
               (\<lambda>h. await (waitForTransactionReceipt E h) (\<lambda>_. return h))))"

definition recordContribution_sf ::
  "'s env \<Rightarrow> client_sf \<Rightarrow> int \<Rightarrow> address \<Rightarrow> int \<Rightarrow> ('s, hash) io" where
  "recordContribution_sf E c i agentAddress percentage =
     await (writeContract E HIVEMIND_ADDRESS (Fn_recordContribution i agentAddress percentage))
       (\<lambda>h. await (waitForTransactionReceipt E h) (\<lambda>_. return h))"

definition completeProject_sf :: "'s env \<Rightarrow> client_sf \<Rightarrow> int \<Rightarrow> ('s, hash) io" where
  "completeProject_sf E c i =
     await (writeContract E HIVEMIND_ADDRESS (Fn_completeProject i))
       (\<lambda>h. await (waitForTransactionReceipt E h) (\<lambda>_. return h))"

definition claimRewards_sf :: "'s env \<Rightarrow> client_sf \<Rightarrow> int \<Rightarrow> ('s, hash) io" where
  "claimRewards_sf E c i =
     await (writeContract E HIVEMIND_ADDRESS (Fn_claimRewards i))
       (\<lambda>h. await (waitForTransactionReceipt E h) (\<lambda>_. return h))"

subsection \<open>The write operations as one family\<close>

text \<open>
  The six write operations of each client, collected so that a statement can range over
  "every write operation". \<open>perform\<close> keeps the fields a \<open>TxResult\<close> has;
  \<open>perform_sf\<close> keeps the hash, which is all but \<open>createProject\<close> return there.
\<close>

datatype write_op =
    Join string "js_number option"
  | CreateProject string string js_number
  | FundProject int js_number
  | RecordContribution int address int
  | CompleteProject int
  | ClaimRewards int

definition tx_fields :: "'a TxResult_scheme \<Rightarrow> hash \<times> nat" where
  "tx_fields r = (hash r, blockNumber r)"

fun perform :: "'s env \<Rightarrow> client \<Rightarrow> write_op \<Rightarrow> ('s, hash \<times> nat) io" where
  "perform E c (Join node x) = await (join E c node x) (\<lambda>r. return (tx_fields r))"
| "perform E c (CreateProject nm repo x) =
     await (createProject E c \<lparr>o_name = nm, o_repoUrl = repo, o_funding = x\<rparr>)
       (\<lambda>r. return (tx_fields r))"
| "perform E c (FundProject i x) = await (fundProject E c i x) (\<lambda>r. return (tx_fields r))"
| "perform E c (RecordContribution i a p) =
     await (recordContribution E c i a p) (\<lambda>r. return (tx_fields r))"
| "perform E c (CompleteProject i) = await (completeProject E c i) (\<lambda>r. return (tx_fields r))"
| "perform E c (ClaimRewards i) = await (claimRewards E c i) (\<lambda>r. return (tx_fields r))"

fun perform_sf :: "'s env \<Rightarrow> client_sf \<Rightarrow> write_op \<Rightarrow> ('s, hash) io" where
  "perform_sf E c (Join node x) = join_sf E c node x"
| "perform_sf E c (CreateProject nm repo x) =
     await (createProject_sf E c nm repo x) (\<lambda>r. return (fst r))"
| "perform_sf E c (FundProject i x) = fundProject_sf E c i x"
| "perform_sf E c (RecordContribution i a p) = recordContribution_sf E c i a p"
| "perform_sf E c (CompleteProject i) = completeProject_sf E c i"
| "perform_sf E c (ClaimRewards i) = claimRewards_sf E c i"

text \<open>
  The amount a write carries, as the client computes it from its argument before anything
  else: \<open>parseUnits(x.toString(), USDC_DECIMALS)\<close>, which may throw. \<open>join\<close>,
  \<open>createProject\<close> and \<open>fundProject\<close> carry one; the other three writes carry none.
\<close>

fun funding :: "write_op \<Rightarrow> (error + int) option" where
  "funding (Join _ None) = Some (Inr (parseUnits_whole 0 USDC_DECIMALS))"
| "funding (Join _ (Some x)) = Some (parseUnits_number x USDC_DECIMALS)"
| "funding (CreateProject _ _ x) = Some (parseUnits_number x USDC_DECIMALS)"
| "funding (FundProject _ x) = Some (parseUnits_number x USDC_DECIMALS)"
| "funding _ = None"

text \<open>
  The transaction an operation exists to submit to the ledger contract, given the parsed
  amount: the \<open>functionName\<close> and \<open>args\<close> of its own \<open>writeContract\<close> call.
\<close>

fun primary :: "write_op \<Rightarrow> int \<Rightarrow> write_fn" where
  "primary (Join node _) amount = Fn_joinHive node amount"
| "primary (CreateProject nm repo _) amount = Fn_createProject nm repo amount"
| "primary (FundProject i _) amount = Fn_fundProject i amount"
| "primary (RecordContribution i a p) _ = Fn_recordContribution i a p"
| "primary (CompleteProject i) _ = Fn_completeProject i"
| "primary (ClaimRewards i) _ = Fn_claimRewards i"

text \<open>The calls on the RPC surface that submit a transaction.\<close>

fun is_write :: "rpc_call \<Rightarrow> bool" where
  "is_write (WriteContract _ _) = True"
| "is_write _ = False"

subsection \<open>A reference back end\<close>

text \<open>
  An in-memory chain on which the client can be run: a token whose \<open>approve\<close> overwrites
  the allowance, as an ERC-20 token does, and a ledger that counts the projects created.
  A transaction takes effect when its receipt is waited for, in the next block. The
  key derivation accepts \<open>0x\<close> followed by 64 hexadecimal
  digits and nothing else, as viem's does (it drops the first two characters and wants
  32 bytes), and keeps the first 20 bytes as the address.
\<close>

definition is_hex :: "char \<Rightarrow> bool" where
  "is_hex ch = (ch \<in> set ''0123456789abcdefABCDEF'')"

record mock_chain =
  m_allowance :: nat
  m_balance :: "address \<Rightarrow> nat"
  m_agents :: "address \<Rightarrow> agent_tuple"
  m_projectCount :: nat
  m_projects :: "int \<Rightarrow> project_tuple option"
  m_contributors :: "int \<Rightarrow> address list"
  m_block :: nat
  m_pending :: "write_fn option"

fun mock_hash :: "write_fn \<Rightarrow> hash" where
  "mock_hash (Fn_approve _ _) = ''0xa1''"
| "mock_hash (Fn_joinHive _ _) = ''0xb2''"
| "mock_hash (Fn_createProject _ _ _) = ''0xc3''"
| "mock_hash (Fn_fundProject _ _) = ''0xd4''"
| "mock_hash (Fn_recordContribution _ _ _) = ''0xe5''"
| "mock_hash (Fn_completeProject _) = ''0xf6''"
| "mock_hash (Fn_claimRewards _) = ''0x07''"

fun mock_effect :: "write_fn \<Rightarrow> mock_chain \<Rightarrow> mock_chain" where
  "mock_effect (Fn_approve _ v) s = s\<lparr>m_allowance := nat v\<rparr>"
| "mock_effect (Fn_createProject nm repo v) s = s\<lparr>m_projectCount := Suc (m_projectCount s)\<rparr>"
| "mock_effect _ s = s"

fun mock_read_uint :: "address \<Rightarrow> read_fn \<Rightarrow> mock_chain \<Rightarrow> error + nat" where
  "mock_read_uint a (Fn_balanceOf x) s = Inr (m_balance s x)"
| "mock_read_uint a (Fn_allowance x y) s = Inr (m_allowance s)"
| "mock_read_uint a Fn_projectCount s = Inr (m_projectCount s)"
| "mock_read_uint a _ s = Inl (ContractReverted ''not a uint256 getter'')"

definition mock_privateKeyToAccount :: "string \<Rightarrow> error + address" where
  "mock_privateKeyToAccount pk =
     (if take 2 pk = ''0x'' \<and> length pk = 66 \<and> list_all is_hex (drop 2 pk)
      then Inr (''0x'' @ take 40 (drop 2 pk)) else Inl InvalidPrivateKey)"

definition mock_read_project :: "address \<Rightarrow> int \<Rightarrow> mock_chain \<Rightarrow> error + project_tuple" where
  "mock_read_project a i s =
     (case m_projects s i of
        None \<Rightarrow> Inl (ContractReverted ''unknown project'')
      | Some p \<Rightarrow> Inr p)"

definition mock_confirm :: "hash \<Rightarrow> mock_chain \<Rightarrow> error + receipt \<times> mock_chain" where
  "mock_confirm h s =
     Inr (\<lparr>r_transactionHash = h, r_blockNumber = Suc (m_block s)\<rparr>,
          (case m_pending s of None \<Rightarrow> s | Some f \<Rightarrow> mock_effect f s)
            \<lparr>m_block := Suc (m_block s), m_pending := None\<rparr>)"

definition mock_env :: "mock_chain env" where
  "mock_env =
     \<lparr>privateKeyToAccount = mock_privateKeyToAccount,
      read_uint = mock_read_uint,
      read_agent = (\<lambda>a x s. Inr (m_agents s x)),
      read_project = mock_read_project,
      read_contributors = (\<lambda>a i s. Inr (m_contributors s i)),
      submit = (\<lambda>a f s. Inr (mock_hash f, s\<lparr>m_pending := Some f\<rparr>)),
      confirm = mock_confirm,
      first_settles = (\<lambda>s. True)\<rparr>"

text \<open>The tuple the contract returns for an address that never registered.\<close>

definition no_agent :: agent_tuple where
  "no_agent =
     \<lparr>t_wallet = ''0x0000000000000000000000000000000000000000'', t_nodeId = [],
      t_creditsContributed = 0, t_computeScore = 0, t_joinedAt = 0, t_active = False\<rparr>"

text \<open>An agent that registered and is flagged inactive.\<close>

definition retired_agent :: agent_tuple where
  "retired_agent =
     \<lparr>t_wallet = ''0xa9'', t_nodeId = ''node-9'',
      t_creditsContributed = 0, t_computeScore = 0, t_joinedAt = 1700000000,
      t_active = False\<rparr>"

definition active_agent :: agent_tuple where
  "active_agent =
     \<lparr>t_wallet = ''0xa7'', t_nodeId = ''node-7'',
      t_creditsContributed = 10000000, t_computeScore = 0, t_joinedAt = 1700000000,
      t_active = True\<rparr>"

definition project_one :: project_tuple where
  "project_one =
     \<lparr>p_name = ''sdk'', p_repoUrl = ''https://github.com/org/repo'', p_creator = ''0xa7'',
      p_totalFunding = 10000000, p_createdAt = 1700000000, p_status = 1\<rparr>"

definition mock_chain0 :: mock_chain where
  "mock_chain0 =
     \<lparr>m_allowance = 5000000,
      m_balance = (\<lambda>a. if a = ''0xme'' then 5000000 else 0),
      m_agents = (\<lambda>a. if a = ''0xa9'' then retired_agent
                       else if a = ''0xa7'' then active_agent else no_agent),
      m_projectCount = 2,
      m_projects = (\<lambda>i. if i = 1 then Some project_one else None),
      m_contributors = (\<lambda>i. if i = 1 then [''0xa7'', ''0xa9''] else []),
      m_block = 100,
      m_pending = None\<rparr>"

definition world0 :: "mock_chain world" where
  "world0 = \<lparr>ledger = mock_chain0, calls = []\<rparr>"

definition mock_client :: client where
  "mock_client =
     \<lparr>account_address = ''0xme'', client_chain = base,
      hivemindAddress = hivemind (CONTRACTS base), usdcAddress = usdc (CONTRACTS base),
      client_rpcUrl = chain_rpcUrl (CHAINS base)\<rparr>"

definition mock_client_sf :: client_sf where
  "mock_client_sf = \<lparr>sf_address = ''0xme''\<rparr>"

text \<open>The same chain with \<open>2 ^ 53\<close> projects on it, and the options of an unfunded project.\<close>

definition world_2_53 :: "mock_chain world" where
  "world_2_53 = \<lparr>ledger = mock_chain0\<lparr>m_projectCount := 9007199254740992\<rparr>, calls = []\<rparr>"

definition plain_options :: "CreateProjectOptions" where
  "plain_options = \<lparr>o_name = ''p'', o_repoUrl = ''r'', o_funding = 0\<rparr>"





text \<open>
  Three chains that differ from the reference one in what happens to a transaction: one
  rejects every submission, one never delivers a receipt (the wait is rejected), and one
  mines every transaction reverted: the receipt arrives, the transaction has no effect.
  viem's \<open>waitForTransactionReceipt\<close> resolves with such a receipt (its \<open>status\<close> is
  \<open>'reverted'\<close>); it does not throw.
\<close>

definition refusing_env :: "mock_chain env" where
  "refusing_env = mock_env\<lparr>submit := (\<lambda>a f s. Inl (ContractReverted ''rejected''))\<rparr>"

definition stalled_env :: "mock_chain env" where
  "stalled_env = mock_env\<lparr>confirm := (\<lambda>h s. Inl (TransportError ''timeout''))\<rparr>"

definition reverting_env :: "mock_chain env" where
  "reverting_env =
     mock_env\<lparr>confirm := (\<lambda>h s.
       Inr (\<lparr>r_transactionHash = h, r_blockNumber = Suc (m_block s)\<rparr>,
            s\<lparr>m_block := Suc (m_block s), m_pending := None\<rparr>))\<rparr>"

text \<open>The reference chain with an allowance of 5,000,000 display units already granted.\<close>

definition world_rich :: "mock_chain world" where
  "world_rich = \<lparr>ledger = mock_chain0\<lparr>m_allowance := 5000000000000\<rparr>, calls = []\<rparr>"

text \<open>The key of the repository's test, without its prefix, and a configuration around a key.\<close>

definition bare_key :: string where
  "bare_key = ''0000000000000000000000000000000000000000000000000000000000000001''"

definition key_config :: "string \<Rightarrow> HiveMindConfig" where
  "key_config k = \<lparr>privateKey = k, cfg_chain = Some base, cfg_rpcUrl = None\<rparr>"

section \<open>Properties\<close>

subsection \<open>Unfolding the plumbing\<close>

lemma floor_rat_numeral: "\<lfloor>(numeral a :: rat) / numeral b\<rfloor> = numeral a div numeral b"
  using floor_divide_of_int_eq [of "numeral a" "numeral b", where ?'a = rat] by simp

lemma floor_rat_one: "\<lfloor>(1 :: rat) / numeral b\<rfloor> = 1 div numeral b"
  using floor_divide_of_int_eq [of 1 "numeral b", where ?'a = rat] by simp

lemma parse_samples:
  "parseUnits_number 0 6 = Inr 0"
  "parseUnits_number 3 6 = Inr 3000000"
  "parseUnits_number 7 6 = Inr 7000000"
  "parseUnits_number 2000000 6 = Inr 2000000000000"
  "parseUnits_number (25 / 2) 6 = Inr 12500000"
  "parseUnits_number (10 ^ 21) 6 = Inl InvalidDecimalNumber"
  by (simp_all add: parseUnits_number_def exponent_notation_def round_half_up_def
      floor_rat_numeral floor_rat_one)

lemma round_half_up_of_int: "round_half_up (of_int k) = k"
proof -
  have "(2 * of_int k + 1) / 2 = (of_int k + 1 / 2 :: rat)" by (simp add: field_simps)
  then show ?thesis
    unfolding round_half_up_def by (simp add: floor_unique)
qed

lemmas io_defs = await_def return_def lift_def logged_def readContract_uint_def
  readContract_agents_def readContract_projects_def readContract_getContributors_def
  writeContract_def waitForTransactionReceipt_def promise_all2_def

lemmas mock_defs = mock_env_def mock_confirm_def mock_read_project_def
  mock_privateKeyToAccount_def mock_chain0_def world0_def mock_client_def mock_client_sf_def
  HIVEMIND_ADDRESS_def USDC_ADDRESS_def USDC_DECIMALS_def parseUnits_whole_def
  world_2_53_def plain_options_def parse_samples

lemma await_done: "m w = (Inr x, w') \<Longrightarrow> await m k w = k x w'"
  by (simp add: await_def)


lemma await_return: "await m return w = m w"
  by (cases "m w" rule: prod.exhaust) (auto simp: await_def return_def split: sum.splits)


subsection \<open>Project creation: the inferred id\<close>

lemma round_binary64_safe: "n \<le> 2 ^ 53 \<Longrightarrow> round_binary64 n = n"
  by (simp add: round_binary64_def)

lemma bit_length_0: "bit_length 0 = 0"
  by (simp add: bit_length.simps)

lemma bit_length_1: "bit_length (Suc 0) = Suc 0"
  by (subst bit_length.simps) (simp add: bit_length_0)

lemma bit_length_One: "bit_length (numeral num.One) = Suc 0"
  by (simp add: bit_length_1)

lemma bit_length_Bit0: "bit_length (numeral (num.Bit0 k)) = Suc (bit_length (numeral k))"
  by (subst bit_length.simps) simp

lemma bit_length_Bit1: "bit_length (numeral (num.Bit1 k)) = Suc (bit_length (numeral k))"
  by (subst bit_length.simps) simp

lemmas bit_length_numeral = bit_length_1 bit_length_One bit_length_Bit0 bit_length_Bit1

lemma bit_length_2_53_1: "bit_length 9007199254740993 = 54"
  by (simp add: bit_length_numeral)

lemma round_2_53_1: "round_binary64 9007199254740993 = 9007199254740992"
  by (simp add: round_binary64_def bit_length_2_53_1 Let_def)

lemma id_inferred:
  assumes "N < 2 ^ 53"
  shows "js_minus_one (Number_of_bigint (Suc N)) = int N"
  using assms by (simp add: js_minus_one_def Number_of_bigint_def round_binary64_safe)

lemma id_2_53: "js_minus_one (Number_of_bigint 9007199254740993) = 9007199254740991"
  by (simp add: js_minus_one_def Number_of_bigint_def round_2_53_1 round_binary64_safe)

lemma createProject_run:
  assumes "parseUnits_number (o_funding options) USDC_DECIMALS = Inr amount"
    and "(if 0 < amount then ensureApproval E c amount else return ()) w = (Inr (), wa)"
    and "submit E (hivemindAddress c)
           (Fn_createProject (o_name options) (o_repoUrl options) amount) (ledger wa) = Inr (h, sa)"
    and "confirm E h sa = Inr (r, sb)"
    and "read_uint E (hivemindAddress c) Fn_projectCount sb = Inr n"
  shows "createProject E c options w =
           (Inr \<lparr>hash = h, blockNumber = r_blockNumber r,
                 projectId = js_minus_one (Number_of_bigint n)\<rparr>,
            wa\<lparr>ledger := sb, calls := calls wa @
               [WriteContract (hivemindAddress c)
                  (Fn_createProject (o_name options) (o_repoUrl options) amount),
                WaitForTransactionReceipt h,
                ReadContract (hivemindAddress c) Fn_projectCount]\<rparr>)"
  using assms
  by (simp add: createProject_def getProjectCount_def await_def [of "\<lambda>w. if _ then _ w else _ w"]
      await_def return_def lift_def logged_def readContract_uint_def writeContract_def
      waitForTransactionReceipt_def)

lemma createProject_sf_run:
  assumes "parseUnits_number x 6 = Inr amount"
    and "approveUsdc_sf E c amount w = (Inr (), wa)"
    and "submit E HIVEMIND_ADDRESS (Fn_createProject nm repo amount) (ledger wa) = Inr (h, sa)"
    and "confirm E h sa = Inr (r, sb)"
    and "read_uint E HIVEMIND_ADDRESS Fn_projectCount sb = Inr n"
  shows "createProject_sf E c nm repo x w =
           (Inr (h, js_minus_one (Number_of_bigint n)),
            wa\<lparr>ledger := sb, calls := calls wa @
               [WriteContract HIVEMIND_ADDRESS (Fn_createProject nm repo amount),
                WaitForTransactionReceipt h,
                ReadContract HIVEMIND_ADDRESS Fn_projectCount]\<rparr>)"
  using assms
  by (simp add: createProject_sf_def await_def return_def lift_def logged_def
      readContract_uint_def writeContract_def waitForTransactionReceipt_def)


text \<open>
  C2, as amended. Take a project creation in which the project count is \<open>N\<close> when the
  creation transaction is submitted and \<open>N + 1\<close> after its confirmation, with
  \<open>N < 2 ^ 53\<close>. Both clients wait for the receipt, then read the project count again,
  and return that count minus one as \<open>projectId\<close>, which is \<open>N\<close>. The bound is there
  because the count passes through a JavaScript number: \<open>Number(count) - 1\<close>.
\<close>

theorem createProject_infers_id:
  "(parseUnits_number (o_funding options) USDC_DECIMALS = Inr amount \<longrightarrow>
    (if 0 < amount then ensureApproval E c amount else return ()) w = (Inr (), wa) \<longrightarrow>
    read_uint E (hivemindAddress c) Fn_projectCount (ledger wa) = Inr N \<longrightarrow>
    submit E (hivemindAddress c)
      (Fn_createProject (o_name options) (o_repoUrl options) amount) (ledger wa) = Inr (h, sa) \<longrightarrow>
    confirm E h sa = Inr (r, sb) \<longrightarrow>
    read_uint E (hivemindAddress c) Fn_projectCount sb = Inr (N + 1) \<longrightarrow>
    N < 2 ^ 53 \<longrightarrow>
    createProject E c options w =
      (Inr \<lparr>hash = h, blockNumber = r_blockNumber r, projectId = int N\<rparr>,
       wa\<lparr>ledger := sb, calls := calls wa @
          [WriteContract (hivemindAddress c)
             (Fn_createProject (o_name options) (o_repoUrl options) amount),
           WaitForTransactionReceipt h,
           ReadContract (hivemindAddress c) Fn_projectCount]\<rparr>)) \<and>
   (parseUnits_number x 6 = Inr amount \<longrightarrow>
    approveUsdc_sf E c' amount w = (Inr (), wa') \<longrightarrow>
    read_uint E HIVEMIND_ADDRESS Fn_projectCount (ledger wa') = Inr N \<longrightarrow>
    submit E HIVEMIND_ADDRESS (Fn_createProject nm repo amount) (ledger wa') = Inr (h', sa') \<longrightarrow>
    confirm E h' sa' = Inr (r', sb') \<longrightarrow>
    read_uint E HIVEMIND_ADDRESS Fn_projectCount sb' = Inr (N + 1) \<longrightarrow>
    N < 2 ^ 53 \<longrightarrow>
    createProject_sf E c' nm repo x w =
      (Inr (h', int N),
       wa'\<lparr>ledger := sb', calls := calls wa' @
          [WriteContract HIVEMIND_ADDRESS (Fn_createProject nm repo amount),
           WaitForTransactionReceipt h',
           ReadContract HIVEMIND_ADDRESS Fn_projectCount]\<rparr>))"
  by (intro conjI impI) (simp_all add: createProject_run createProject_sf_run id_inferred)

theorem createProject_infers_id_witness:
  "createProject mock_env mock_client plain_options world0 =
      (Inr \<lparr>hash = ''0xc3'', blockNumber = 101, projectId = 2\<rparr>,
       world0\<lparr>ledger := mock_chain0\<lparr>m_projectCount := 3, m_block := 101\<rparr>,
         calls :=
          [WriteContract ''0xA1021d8287Da2cdFAfFab57CDb150088179e5f5B''
             (Fn_createProject ''p'' ''r'' 0),
           WaitForTransactionReceipt ''0xc3'',
           ReadContract ''0xA1021d8287Da2cdFAfFab57CDb150088179e5f5B'' Fn_projectCount]\<rparr>) \<and>
   createProject_sf mock_env mock_client_sf ''p'' ''r'' 0 world0 =
      (Inr (''0xc3'', 2),
       world0\<lparr>ledger := mock_chain0\<lparr>m_projectCount := 3, m_block := 101\<rparr>,
         calls :=
          [ReadContract ''0x833589fCD6eDb6E08f4c7C32D4f71b54bdA02913''
             (Fn_allowance ''0xme'' ''0xA1021d8287Da2cdFAfFab57CDb150088179e5f5B''),
           WriteContract ''0xA1021d8287Da2cdFAfFab57CDb150088179e5f5B''
             (Fn_createProject ''p'' ''r'' 0),
           WaitForTransactionReceipt ''0xc3'',
           ReadContract ''0xA1021d8287Da2cdFAfFab57CDb150088179e5f5B'' Fn_projectCount]\<rparr>)"
  using createProject_infers_id [where E = mock_env and c = mock_client and c' = mock_client_sf
      and options = plain_options and x = 0 and nm = "''p''" and repo = "''r''"
      and amount = 0 and w = world0 and N = 2
      and wa = world0
      and wa' = "world0\<lparr>calls :=
          [ReadContract USDC_ADDRESS (Fn_allowance (sf_address mock_client_sf) HIVEMIND_ADDRESS)]\<rparr>"
      and h = "''0xc3''" and h' = "''0xc3''"
      and sa = "mock_chain0\<lparr>m_pending := Some (Fn_createProject ''p'' ''r'' 0)\<rparr>"
      and sa' = "mock_chain0\<lparr>m_pending := Some (Fn_createProject ''p'' ''r'' 0)\<rparr>"
      and r = "\<lparr>r_transactionHash = ''0xc3'', r_blockNumber = 101\<rparr>"
      and r' = "\<lparr>r_transactionHash = ''0xc3'', r_blockNumber = 101\<rparr>"
      and sb = "mock_chain0\<lparr>m_projectCount := 3, m_block := 101\<rparr>"
      and sb' = "mock_chain0\<lparr>m_projectCount := 3, m_block := 101\<rparr>"]
  by (simp add: approveUsdc_sf_def io_defs mock_defs)


text \<open>
  C2, as stated (for every \<open>N\<close>), fails at \<open>N = 2 ^ 53 = 9007199254740992\<close>: the count
  read back, \<open>9007199254740993\<close>, is not a binary64 value, \<open>Number\<close> rounds it to
  \<open>9007199254740992\<close>, and the id returned is \<open>9007199254740991\<close>, not \<open>N\<close>.
\<close>

theorem createProject_infers_id_counterexample:
  "read_uint mock_env (hivemindAddress mock_client) Fn_projectCount (ledger world_2_53)
     = Inr 9007199254740992 \<and>
   createProject mock_env mock_client plain_options world_2_53 =
      (Inr \<lparr>hash = ''0xc3'', blockNumber = 101, projectId = 9007199254740991\<rparr>,
       world_2_53\<lparr>ledger := mock_chain0\<lparr>m_projectCount := 9007199254740993, m_block := 101\<rparr>,
         calls :=
          [WriteContract ''0xA1021d8287Da2cdFAfFab57CDb150088179e5f5B''
             (Fn_createProject ''p'' ''r'' 0),
           WaitForTransactionReceipt ''0xc3'',
           ReadContract ''0xA1021d8287Da2cdFAfFab57CDb150088179e5f5B'' Fn_projectCount]\<rparr>) \<and>
   read_uint mock_env (hivemindAddress mock_client) Fn_projectCount
     (mock_chain0\<lparr>m_projectCount := 9007199254740993, m_block := 101\<rparr>)
     = Inr 9007199254740993"
  using createProject_run [where E = mock_env and c = mock_client
      and options = plain_options and amount = 0 and w = world_2_53 and wa = world_2_53
      and h = "''0xc3''"
      and sa = "mock_chain0\<lparr>m_projectCount := 9007199254740992,
                  m_pending := Some (Fn_createProject ''p'' ''r'' 0)\<rparr>"
      and r = "\<lparr>r_transactionHash = ''0xc3'', r_blockNumber = 101\<rparr>"
      and sb = "mock_chain0\<lparr>m_projectCount := 9007199254740993, m_block := 101\<rparr>"
      and n = 9007199254740993]
  by (simp add: io_defs mock_defs id_2_53)

subsection \<open>Agent lookup\<close>

lemma getAgent_run:
  assumes "read_agent E (hivemindAddress c) (or_own a c) (ledger w) = Inr t"
  shows "getAgent E c a w =
     (Inr (if t_joinedAt t = 0 then None
           else Some \<lparr>wallet = t_wallet t, nodeId = t_nodeId t,
                  creditsContributed = t_creditsContributed t,
                  computeScore = t_computeScore t,
                  joinedAt = new_Date (js_times_1000 (Number_of_bigint (t_joinedAt t))),
                  active = t_active t\<rparr>),
      w\<lparr>calls := calls w @ [ReadContract (hivemindAddress c) (Fn_agents (or_own a c))]\<rparr>)"
  using assms by (simp add: getAgent_def io_defs)

lemma getAgent_sf_run:
  assumes "read_agent E HIVEMIND_ADDRESS a (ledger w) = Inr t"
  shows "getAgent_sf E c a w =
     (Inr (if \<not> t_active t then None
           else Some \<lparr>wallet = t_wallet t, nodeId = t_nodeId t,
                  creditsContributed = t_creditsContributed t,
                  computeScore = t_computeScore t,
                  joinedAt = new_Date (js_times_1000 (Number_of_bigint (t_joinedAt t))),
                  active = t_active t\<rparr>),
      w\<lparr>calls := calls w @ [ReadContract HIVEMIND_ADDRESS (Fn_agents a)]\<rparr>)"
  using assms by (simp add: getAgent_sf_def io_defs)

lemma joinedAt_example:
  "new_Date (js_times_1000 (Number_of_bigint 1700000000)) = Date 1700000000000"
  by (simp add: new_Date_def js_times_1000_def Number_of_bigint_def round_binary64_safe)

text \<open>
  C3, as amended. For an address whose on-chain agent tuple is the unregistered default
  (zero \<open>joinedAt\<close>, inactive), both copies of \<open>getAgent\<close> return the explicit absent
  value \<open>null\<close>, never a record with zeroed fields. In \<open>client.ts\<close> the sentinel is the
  join timestamp: \<open>null\<close> when it is zero, and for every registered address (nonzero
  \<open>joinedAt\<close>) the structured record of the tuple. In the single-file SDK the sentinel
  is the active flag: \<open>null\<close> when it is false, the structured record when it is true.
\<close>

theorem getAgent_absent_or_record:
  "(read_agent E (hivemindAddress c) (or_own a c) (ledger w) = Inr t \<longrightarrow>
      (t_joinedAt t = 0 \<longrightarrow> fst (getAgent E c a w) = Inr None) \<and>
      (t_joinedAt t \<noteq> 0 \<longrightarrow>
         fst (getAgent E c a w) =
           Inr (Some \<lparr>wallet = t_wallet t, nodeId = t_nodeId t,
                  creditsContributed = t_creditsContributed t,
                  computeScore = t_computeScore t,
                  joinedAt = new_Date (js_times_1000 (Number_of_bigint (t_joinedAt t))),
                  active = t_active t\<rparr>))) \<and>
   (read_agent E HIVEMIND_ADDRESS x (ledger w) = Inr t' \<longrightarrow>
      (\<not> t_active t' \<longrightarrow> fst (getAgent_sf E c' x w) = Inr None) \<and>
      (t_active t' \<longrightarrow>
         fst (getAgent_sf E c' x w) =
           Inr (Some \<lparr>wallet = t_wallet t', nodeId = t_nodeId t',
                  creditsContributed = t_creditsContributed t',
                  computeScore = t_computeScore t',
                  joinedAt = new_Date (js_times_1000 (Number_of_bigint (t_joinedAt t'))),
                  active = True\<rparr>)))"
  by (intro conjI impI) (simp_all add: getAgent_run getAgent_sf_run)

theorem getAgent_absent_or_record_witness:
  "fst (getAgent mock_env mock_client (Some ''0x01'') world0) = Inr None \<and>
   fst (getAgent mock_env mock_client (Some ''0xa9'') world0) =
     Inr (Some \<lparr>wallet = ''0xa9'', nodeId = ''node-9'', creditsContributed = 0,
            computeScore = 0, joinedAt = Date 1700000000000, active = False\<rparr>) \<and>
   fst (getAgent_sf mock_env mock_client_sf ''0x01'' world0) = Inr None \<and>
   fst (getAgent_sf mock_env mock_client_sf ''0xa7'' world0) =
     Inr (Some \<lparr>wallet = ''0xa7'', nodeId = ''node-7'', creditsContributed = 10000000,
            computeScore = 0, joinedAt = Date 1700000000000, active = True\<rparr>)"
  using
    getAgent_absent_or_record [where E = mock_env and c = mock_client and c' = mock_client_sf
      and w = world0 and a = "Some ''0x01''" and x = "''0x01''"
      and t = no_agent and t' = no_agent]
    getAgent_absent_or_record [where E = mock_env and c = mock_client and c' = mock_client_sf
      and w = world0 and a = "Some ''0xa9''" and x = "''0xa7''"
      and t = retired_agent and t' = active_agent]
  by (simp add: mock_defs or_own_def no_agent_def retired_agent_def active_agent_def
      joinedAt_example)

text \<open>
  C3, as stated (a structured record for every registered address), fails for the
  single-file SDK: the agent at \<open>0xa9\<close> registered (\<open>joinedAt = 1700000000\<close>) and is
  flagged inactive, and \<open>getAgent\<close> returns \<open>null\<close> for it.
\<close>

theorem getAgent_registered_counterexample:
  "read_agent mock_env HIVEMIND_ADDRESS ''0xa9'' (ledger world0) = Inr retired_agent \<and>
   t_joinedAt retired_agent = 1700000000 \<and>
   fst (getAgent_sf mock_env mock_client_sf ''0xa9'' world0) = Inr None"
  using getAgent_sf_run [where E = mock_env and c = mock_client_sf and w = world0
      and a = "''0xa9''" and t = retired_agent]
  by (simp add: mock_defs retired_agent_def)

text \<open>
  C4. The two copies of \<open>getAgent\<close> implement different existence rules. On an agent
  tuple with a nonzero \<open>joinedAt\<close> and the active flag false, the copy with the
  join-timestamp sentinel (\<open>client.ts\<close>) returns a populated record and the copy with the
  active-flag sentinel (single-file SDK) returns \<open>null\<close>, so their results differ. Such a
  tuple exists (the one at \<open>0xa9\<close> of the reference chain), hence the two functions are
  not extensionally equal.
\<close>

theorem getAgent_variants_disagree:
  "read_agent E (hivemindAddress c) x (ledger w) = Inr t \<Longrightarrow>
   read_agent E HIVEMIND_ADDRESS x (ledger w) = Inr t \<Longrightarrow>
   t_joinedAt t \<noteq> 0 \<Longrightarrow> \<not> t_active t \<Longrightarrow>
   fst (getAgent E c (Some x) w) =
     Inr (Some \<lparr>wallet = t_wallet t, nodeId = t_nodeId t,
            creditsContributed = t_creditsContributed t,
            computeScore = t_computeScore t,
            joinedAt = new_Date (js_times_1000 (Number_of_bigint (t_joinedAt t))),
            active = False\<rparr>) \<and>
   fst (getAgent_sf E c' x w) = Inr None \<and>
   fst (getAgent E c (Some x) w) \<noteq> fst (getAgent_sf E c' x w)"
  by (simp add: getAgent_run getAgent_sf_run or_own_def)

theorem getAgent_variants_disagree_witness:
  "t_joinedAt retired_agent \<noteq> 0 \<and> \<not> t_active retired_agent \<and>
   fst (getAgent mock_env mock_client (Some ''0xa9'') world0) =
     Inr (Some \<lparr>wallet = ''0xa9'', nodeId = ''node-9'', creditsContributed = 0,
            computeScore = 0, joinedAt = Date 1700000000000, active = False\<rparr>) \<and>
   fst (getAgent_sf mock_env mock_client_sf ''0xa9'' world0) = Inr None \<and>
   (\<lambda>x. fst (getAgent mock_env mock_client (Some x) world0)) \<noteq>
   (\<lambda>x. fst (getAgent_sf mock_env mock_client_sf x world0))"
proof -
  have t: "t_joinedAt retired_agent \<noteq> 0" "\<not> t_active retired_agent"
    by (simp_all add: retired_agent_def)
  have rd: "read_agent mock_env (hivemindAddress mock_client) ''0xa9'' (ledger world0) = Inr retired_agent"
    "read_agent mock_env HIVEMIND_ADDRESS ''0xa9'' (ledger world0) = Inr retired_agent"
    by (simp_all add: mock_defs)
  note d = getAgent_variants_disagree [OF rd t, where c' = mock_client_sf]
  from d have "(\<lambda>x. fst (getAgent mock_env mock_client (Some x) world0)) ''0xa9'' \<noteq>
      (\<lambda>x. fst (getAgent_sf mock_env mock_client_sf x world0)) ''0xa9''"
    by simp
  then have ne: "(\<lambda>x. fst (getAgent mock_env mock_client (Some x) world0)) \<noteq>
      (\<lambda>x. fst (getAgent_sf mock_env mock_client_sf x world0))"
    by metis
  from d t ne show ?thesis
    by (simp add: retired_agent_def joinedAt_example)
qed

subsection \<open>Project lookup\<close>

lemma getProject_run:
  assumes "read_project E (hivemindAddress c) i (ledger w) = Inr p"
    and "read_contributors E (hivemindAddress c) i (ledger w) = Inr cs"
  shows "getProject E c i w =
     (Inr \<lparr>pr_id = i, pr_name = p_name p, pr_repoUrl = p_repoUrl p, pr_creator = p_creator p,
            pr_totalFunding = p_totalFunding p,
            pr_createdAt = new_Date (js_times_1000 (Number_of_bigint (p_createdAt p))),
            pr_status = p_status p, pr_contributors = cs\<rparr>,
      w\<lparr>calls := calls w @
         [ReadContract (hivemindAddress c) (Fn_projects i),
          ReadContract (hivemindAddress c) (Fn_getContributors i)]\<rparr>)"
  using assms by (simp add: getProject_def io_defs)

lemma getProject_sf_run:
  assumes "read_project E HIVEMIND_ADDRESS i (ledger w) = Inr p"
    and "read_contributors E HIVEMIND_ADDRESS i (ledger w) = Inr cs"
  shows "getProject_sf E c i w =
     (Inr \<lparr>pr_id = i, pr_name = p_name p, pr_repoUrl = p_repoUrl p, pr_creator = p_creator p,
            pr_totalFunding = p_totalFunding p,
            pr_createdAt = new_Date (js_times_1000 (Number_of_bigint (p_createdAt p))),
            pr_status = statusMap_at (p_status p), pr_contributors = cs\<rparr>,
      w\<lparr>calls := calls w @
         [ReadContract HIVEMIND_ADDRESS (Fn_projects i),
          ReadContract HIVEMIND_ADDRESS (Fn_getContributors i)]\<rparr>)"
  using assms by (simp add: getProject_sf_def io_defs)

lemma status_enumerated:
  assumes "n < 3"
  shows "\<exists>st. n = ProjectStatus_value st"
proof -
  from assms have "n = 0 \<or> n = 1 \<or> n = 2" by arith
  then show ?thesis
    by (metis ProjectStatus_value.simps)
qed

lemma statusMap_enumerated:
  assumes "n < 3"
  shows "statusMap_at n \<in> {Some ''Active'', Some ''Completed'', Some ''Cancelled''}"
proof -
  from assms have "n = 0 \<or> n = 1 \<or> n = 2" by arith
  then show ?thesis
    by (auto simp: statusMap_at_def statusMap_def)
qed

text \<open>
  C6. For an existing project id (both reads succeed, and the status byte of the tuple is
  one of the three values the contract's enum has), \<open>getProject\<close> issues the read of the
  core tuple and the read of the contributor list, in that order and nothing else, and
  merges them: the record's id is the argument, its status is one of the three enumerated
  values (the numeric enum member in \<open>client.ts\<close>, the name in the single-file SDK), and
  its contributors are exactly the list the contributor read returned, hence of equal
  length.
\<close>

theorem getProject_merges_reads:
  "(read_project E (hivemindAddress c) i (ledger w) = Inr p \<longrightarrow>
    read_contributors E (hivemindAddress c) i (ledger w) = Inr cs \<longrightarrow>
    p_status p < 3 \<longrightarrow>
    (\<exists>P. getProject E c i w =
            (Inr P, w\<lparr>calls := calls w @
               [ReadContract (hivemindAddress c) (Fn_projects i),
                ReadContract (hivemindAddress c) (Fn_getContributors i)]\<rparr>) \<and>
         pr_id P = i \<and>
         (\<exists>st. pr_status P = ProjectStatus_value st) \<and>
         pr_contributors P = cs \<and> length (pr_contributors P) = length cs \<and>
         pr_name P = p_name p \<and> pr_repoUrl P = p_repoUrl p \<and> pr_creator P = p_creator p \<and>
         pr_totalFunding P = p_totalFunding p)) \<and>
   (read_project E HIVEMIND_ADDRESS i (ledger w) = Inr p' \<longrightarrow>
    read_contributors E HIVEMIND_ADDRESS i (ledger w) = Inr cs' \<longrightarrow>
    p_status p' < 3 \<longrightarrow>
    (\<exists>P. getProject_sf E c' i w =
            (Inr P, w\<lparr>calls := calls w @
               [ReadContract HIVEMIND_ADDRESS (Fn_projects i),
                ReadContract HIVEMIND_ADDRESS (Fn_getContributors i)]\<rparr>) \<and>
         pr_id P = i \<and>
         pr_status P \<in> {Some ''Active'', Some ''Completed'', Some ''Cancelled''} \<and>
         pr_contributors P = cs' \<and> length (pr_contributors P) = length cs' \<and>
         pr_name P = p_name p' \<and> pr_repoUrl P = p_repoUrl p' \<and> pr_creator P = p_creator p' \<and>
         pr_totalFunding P = p_totalFunding p'))"
proof (intro conjI impI)
  assume "read_project E (hivemindAddress c) i (ledger w) = Inr p"
    and "read_contributors E (hivemindAddress c) i (ledger w) = Inr cs"
    and "p_status p < 3"
  then show "\<exists>P. getProject E c i w =
            (Inr P, w\<lparr>calls := calls w @
               [ReadContract (hivemindAddress c) (Fn_projects i),
                ReadContract (hivemindAddress c) (Fn_getContributors i)]\<rparr>) \<and>
         pr_id P = i \<and>
         (\<exists>st. pr_status P = ProjectStatus_value st) \<and>
         pr_contributors P = cs \<and> length (pr_contributors P) = length cs \<and>
         pr_name P = p_name p \<and> pr_repoUrl P = p_repoUrl p \<and> pr_creator P = p_creator p \<and>
         pr_totalFunding P = p_totalFunding p"
    by (simp add: getProject_run status_enumerated)
next
  assume "read_project E HIVEMIND_ADDRESS i (ledger w) = Inr p'"
    and "read_contributors E HIVEMIND_ADDRESS i (ledger w) = Inr cs'"
    and "p_status p' < 3"
  then show "\<exists>P. getProject_sf E c' i w =
            (Inr P, w\<lparr>calls := calls w @
               [ReadContract HIVEMIND_ADDRESS (Fn_projects i),
                ReadContract HIVEMIND_ADDRESS (Fn_getContributors i)]\<rparr>) \<and>
         pr_id P = i \<and>
         pr_status P \<in> {Some ''Active'', Some ''Completed'', Some ''Cancelled''} \<and>
         pr_contributors P = cs' \<and> length (pr_contributors P) = length cs' \<and>
         pr_name P = p_name p' \<and> pr_repoUrl P = p_repoUrl p' \<and> pr_creator P = p_creator p' \<and>
         pr_totalFunding P = p_totalFunding p'"
    using statusMap_enumerated [of "p_status p'"] by (simp add: getProject_sf_run)
qed

theorem getProject_merges_reads_witness:
  "(\<exists>P. getProject mock_env mock_client 1 world0 =
          (Inr P, world0\<lparr>calls :=
             [ReadContract ''0xA1021d8287Da2cdFAfFab57CDb150088179e5f5B'' (Fn_projects 1),
              ReadContract ''0xA1021d8287Da2cdFAfFab57CDb150088179e5f5B''
                (Fn_getContributors 1)]\<rparr>) \<and>
        pr_id P = 1 \<and> (\<exists>st. pr_status P = ProjectStatus_value st) \<and>
        pr_contributors P = [''0xa7'', ''0xa9''] \<and> length (pr_contributors P) = 2) \<and>
   (\<exists>P. getProject_sf mock_env mock_client_sf 1 world0 =
          (Inr P, world0\<lparr>calls :=
             [ReadContract ''0xA1021d8287Da2cdFAfFab57CDb150088179e5f5B'' (Fn_projects 1),
              ReadContract ''0xA1021d8287Da2cdFAfFab57CDb150088179e5f5B''
                (Fn_getContributors 1)]\<rparr>) \<and>
        pr_id P = 1 \<and>
        pr_status P \<in> {Some ''Active'', Some ''Completed'', Some ''Cancelled''} \<and>
        pr_contributors P = [''0xa7'', ''0xa9''] \<and> length (pr_contributors P) = 2)"
  using getProject_merges_reads [where E = mock_env and c = mock_client and c' = mock_client_sf
      and w = world0 and i = 1 and p = project_one and p' = project_one
      and cs = "[''0xa7'', ''0xa9'']" and cs' = "[''0xa7'', ''0xa9'']"]
  by (auto simp add: mock_defs project_one_def)


subsection \<open>Write operations\<close>
























subsection \<open>Construction\<close>

lemma not_prefixed:
  assumes "length k = 64" and "list_all is_hex k"
  shows "take 2 k \<noteq> ''0x''"
proof
  assume p: "take 2 k = ''0x''"
  from assms(1) obtain a b r where k: "k = a # b # r"
    by (cases k; cases "tl k") auto
  with p have "b = CHR ''x''" by simp
  with assms(2) k show False by (simp add: is_hex_def)
qed

lemma normalized_pk_bare:
  assumes "length k = 64" and "list_all is_hex k"
  shows "normalized_pk k = ''0x'' @ k"
  using not_prefixed [OF assms] by (simp add: normalized_pk_def)

lemma normalized_pk_prefixed: "normalized_pk (''0x'' @ k) = ''0x'' @ k"
  by (simp add: normalized_pk_def)

lemma normalized_pk_prefixed_Cons:
  "normalized_pk (CHR ''0'' # CHR ''x'' # k) = CHR ''0'' # CHR ''x'' # k"
  by (simp add: normalized_pk_def)

lemma new_HiveMind_key:
  "normalized_pk (privateKey config) = normalized_pk (privateKey config') \<Longrightarrow>
   cfg_chain config = cfg_chain config' \<Longrightarrow> cfg_rpcUrl config = cfg_rpcUrl config' \<Longrightarrow>
   new_HiveMind E config = new_HiveMind E config'"
  by (cases "privateKeyToAccount E (normalized_pk (privateKey config'))")
     (simp_all add: new_HiveMind_def Let_def)

lemma new_HiveMind_address:
  "map_sum id account_address (new_HiveMind E config) =
     privateKeyToAccount E (normalized_pk (privateKey config))"
  by (cases "privateKeyToAccount E (normalized_pk (privateKey config))")
     (simp_all add: new_HiveMind_def Let_def)

lemma new_HiveMind_sf_address:
  "map_sum id sf_address (new_HiveMind_sf E config) = privateKeyToAccount E (privateKey config)"
  by (cases "privateKeyToAccount E (privateKey config)") (simp_all add: new_HiveMind_sf_def)

text \<open>
  C8, as amended. For every signing key of 64 hexadecimal characters, the constructor of
  \<open>client.ts\<close> normalizes the key without the prefix \<open>0x\<close> and the key with it to the
  same prefixed key, builds the same client from both, and so derives the same wallet
  address. The constructor of the single-file SDK does not normalize: it hands the key to
  \<open>privateKeyToAccount\<close> as it is (its configuration type admits prefixed keys only).
\<close>

theorem key_prefix_normalized:
  "length k = 64 \<Longrightarrow> list_all is_hex k \<Longrightarrow>
   normalized_pk k = ''0x'' @ k \<and>
   normalized_pk (''0x'' @ k) = ''0x'' @ k \<and>
   new_HiveMind E (config\<lparr>privateKey := k\<rparr>) =
     new_HiveMind E (config\<lparr>privateKey := ''0x'' @ k\<rparr>) \<and>
   map_sum id account_address (new_HiveMind E (config\<lparr>privateKey := k\<rparr>)) =
     privateKeyToAccount E (''0x'' @ k) \<and>
   map_sum id sf_address (new_HiveMind_sf E (config\<lparr>privateKey := k\<rparr>)) =
     privateKeyToAccount E k"
proof -
  assume k: "length k = 64" "list_all is_hex k"
  have bare: "normalized_pk k = ''0x'' @ k"
    using k by (rule normalized_pk_bare)
  have pre: "normalized_pk (''0x'' @ k) = ''0x'' @ k"
    by (rule normalized_pk_prefixed)
  have same: "new_HiveMind E (config\<lparr>privateKey := k\<rparr>) =
      new_HiveMind E (config\<lparr>privateKey := ''0x'' @ k\<rparr>)"
    by (rule new_HiveMind_key) (simp_all add: bare normalized_pk_prefixed_Cons)
  have addr: "map_sum id account_address (new_HiveMind E (config\<lparr>privateKey := k\<rparr>)) =
      privateKeyToAccount E (''0x'' @ k)"
    using new_HiveMind_address [of E "config\<lparr>privateKey := k\<rparr>"] bare by simp
  have sf: "map_sum id sf_address (new_HiveMind_sf E (config\<lparr>privateKey := k\<rparr>)) =
      privateKeyToAccount E k"
    using new_HiveMind_sf_address [of E "config\<lparr>privateKey := k\<rparr>"] by simp
  from bare pre same addr sf show ?thesis by (intro conjI)
qed

lemma bare_key_hex: "length bare_key = 64 \<and> list_all is_hex bare_key"
  by (simp add: bare_key_def is_hex_def)

theorem key_prefix_normalized_witness:
  "length bare_key = 64 \<and> list_all is_hex bare_key \<and>
   normalized_pk bare_key = ''0x'' @ bare_key \<and>
   new_HiveMind mock_env (key_config bare_key) =
     new_HiveMind mock_env (key_config (''0x'' @ bare_key)) \<and>
   map_sum id account_address (new_HiveMind mock_env (key_config bare_key)) =
     privateKeyToAccount mock_env (''0x'' @ bare_key)"
proof -
  have h: "length bare_key = 64" "list_all is_hex bare_key"
    using bare_key_hex by simp_all
  have c: "(key_config bare_key)\<lparr>privateKey := bare_key\<rparr> = key_config bare_key"
    "(key_config bare_key)\<lparr>privateKey := ''0x'' @ bare_key\<rparr> = key_config (''0x'' @ bare_key)"
    by (simp_all add: key_config_def)
  from key_prefix_normalized [OF h, where E = mock_env and config = "key_config bare_key"] h
  show ?thesis unfolding c by blast
qed

text \<open>
  C8, as stated, fails for the single-file SDK: the key of the repository's test without
  its prefix is rejected, with the prefix it yields an account.
\<close>

theorem key_prefix_sf_counterexample:
  "new_HiveMind_sf mock_env (key_config bare_key) = Inl InvalidPrivateKey \<and>
   new_HiveMind_sf mock_env (key_config (''0x'' @ bare_key)) =
     Inr \<lparr>sf_address = ''0x0000000000000000000000000000000000000000''\<rparr>"
  by (simp add: new_HiveMind_sf_def key_config_def mock_defs bare_key_def is_hex_def)


subsection \<open>Token balance\<close>






subsection \<open>The unit conversion\<close>

lemma units_round_trip_aux:
  assumes "0 \<le> x" and "x < 10 ^ 21" and "x * 10 ^ 6 = of_int m"
  shows "parseUnits_number x 6 = Inr m \<and> 0 \<le> m \<and> formatUnits_number (nat m) 6 = x"
proof -
  from assms(1,3) have m: "0 \<le> m"
    by (metis of_int_0_le_iff mult_nonneg_nonneg zero_le_numeral zero_le_power)
  have small: "\<not> (x \<noteq> 0 \<and> \<bar>x\<bar> < 1 / 10 ^ 6)"
  proof
    assume a: "x \<noteq> 0 \<and> \<bar>x\<bar> < 1 / 10 ^ 6"
    with assms(1) have "0 < x * 10 ^ 6" "x * 10 ^ 6 < 1" by (simp_all add: field_simps)
    with assms(3) have "0 < m" "m < 1" by simp_all
    then show False by simp
  qed
  from assms(1,2) have "\<not> 10 ^ 21 \<le> \<bar>x\<bar>" by simp
  with small have ne: "\<not> exponent_notation x" by (simp add: exponent_notation_def)
  from assms(1) have ax: "\<bar>x\<bar> = x" by simp
  have p: "parseUnits_number x 6 = Inr m"
    using ne assms(1,3) by (simp add: parseUnits_number_def ax round_half_up_of_int)
  have "formatUnits_number (nat m) 6 = of_int m / 10 ^ 6"
    using m by (simp add: formatUnits_number_def)
  also have "\<dots> = x" using assms(3) by (simp add: field_simps)
  finally show ?thesis using p m by simp
qed

text \<open>
  C5, as amended. For every non-negative decimal value \<open>x\<close> below \<open>10 ^ 21\<close> with at most
  6 fractional digits (\<open>x * 10 ^ 6\<close> is an integer \<open>m\<close>), converting \<open>x\<close> to a
  smallest-unit integer the way the writes do, \<open>parseUnits(x.toString(), 6)\<close>, yields
  \<open>m\<close>, and converting back the way \<open>getUsdcBalance\<close> does,
  \<open>Number(formatUnits(m, 6))\<close>, yields \<open>x\<close> again.
\<close>

theorem units_round_trip:
  "0 \<le> x \<Longrightarrow> x < 10 ^ 21 \<Longrightarrow> x * 10 ^ 6 = of_int m \<Longrightarrow>
   parseUnits_number x USDC_DECIMALS = Inr m \<and> 0 \<le> m \<and>
   formatUnits_number (nat m) USDC_DECIMALS = x"
  using units_round_trip_aux [of x m] by (simp add: USDC_DECIMALS_def)

theorem units_round_trip_witness:
  "(0 :: rat) \<le> 25 / 2 \<and> (25 / 2 :: rat) < 10 ^ 21 \<and>
   (25 / 2 :: rat) * 10 ^ 6 = of_int 12500000 \<and>
   parseUnits_number (25 / 2) USDC_DECIMALS = Inr 12500000 \<and>
   formatUnits_number (nat 12500000) USDC_DECIMALS = 25 / 2"
  using units_round_trip [of "25 / 2" 12500000] by simp

text \<open>
  C5, as stated (for every such \<open>x\<close>), fails at \<open>x = 10 ^ 21\<close>, a whole number: its string
  is \<open>1e+21\<close>, which \<open>parseUnits\<close> rejects, so there is no smallest-unit integer to
  convert back.
\<close>

theorem units_round_trip_counterexample:
  "(0 :: rat) \<le> 10 ^ 21 \<and> (10 ^ 21 :: rat) * 10 ^ 6 = of_int (10 ^ 27) \<and>
   parseUnits_number (10 ^ 21) USDC_DECIMALS = Inl InvalidDecimalNumber"
  by (simp add: parseUnits_number_def exponent_notation_def)

subsection \<open>The allowance sub-protocol\<close>

lemma approveUsdc_sf_as_client: "approveUsdc_sf E c amount = ensureApproval E (as_client c) amount"
  by (simp add: approveUsdc_sf_def ensureApproval_def as_client_def USDC_DECIMALS_def
      cong: if_cong)

lemma approval_then:
  assumes "read_uint E (usdcAddress c) (Fn_allowance (account_address c) (hivemindAddress c)) (ledger w) = Inr a"
  shows "amount \<le> int a \<Longrightarrow>
           await (ensureApproval E c amount) k w =
             k () (w\<lparr>calls := calls w @
                [ReadContract (usdcAddress c) (Fn_allowance (account_address c) (hivemindAddress c))]\<rparr>)"
    and "int a < amount \<Longrightarrow>
         submit E (usdcAddress c) (Fn_approve (hivemindAddress c) 1000000000000) (ledger w) = Inl e \<Longrightarrow>
           await (ensureApproval E c amount) k w =
             (Inl e, w\<lparr>calls := calls w @
                [ReadContract (usdcAddress c) (Fn_allowance (account_address c) (hivemindAddress c)),
                 WriteContract (usdcAddress c) (Fn_approve (hivemindAddress c) 1000000000000)]\<rparr>)"
    and "int a < amount \<Longrightarrow>
         submit E (usdcAddress c) (Fn_approve (hivemindAddress c) 1000000000000) (ledger w) = Inr (h, sa) \<Longrightarrow>
         confirm E h sa = Inl e \<Longrightarrow>
           await (ensureApproval E c amount) k w =
             (Inl e, w\<lparr>ledger := sa, calls := calls w @
                [ReadContract (usdcAddress c) (Fn_allowance (account_address c) (hivemindAddress c)),
                 WriteContract (usdcAddress c) (Fn_approve (hivemindAddress c) 1000000000000),
                 WaitForTransactionReceipt h]\<rparr>)"
    and "int a < amount \<Longrightarrow>
         submit E (usdcAddress c) (Fn_approve (hivemindAddress c) 1000000000000) (ledger w) = Inr (h, sa) \<Longrightarrow>
         confirm E h sa = Inr (r, sb) \<Longrightarrow>
           await (ensureApproval E c amount) k w =
             k () (w\<lparr>ledger := sb, calls := calls w @
                [ReadContract (usdcAddress c) (Fn_allowance (account_address c) (hivemindAddress c)),
                 WriteContract (usdcAddress c) (Fn_approve (hivemindAddress c) 1000000000000),
                 WaitForTransactionReceipt h]\<rparr>)"
  using assms
  by (simp_all add: ensureApproval_def io_defs parseUnits_whole_def USDC_DECIMALS_def)

lemma await_return_map:
  "await m (\<lambda>r. return (g r)) w = (map_sum id g (fst (m w)), snd (m w))"
  by (cases "m w" rule: prod.exhaust) (auto simp: await_def return_def split: sum.splits)

lemma tx_tail_calls:
  "\<exists>rest. calls (snd (await (writeContract E L f)
              (\<lambda>h. await (waitForTransactionReceipt E h) (\<lambda>receipt. return (g h receipt))) w1))
           = calls w1 @ WriteContract L f # rest \<and> (\<forall>y\<in>set rest. \<not> is_write y)"
  by (auto simp: io_defs split: sum.splits prod.splits)

lemma createProject_tail_calls:
  "\<exists>rest. calls (snd (await (writeContract E (hivemindAddress c) f)
              (\<lambda>h. await (waitForTransactionReceipt E h)
                 (\<lambda>receipt. await (getProjectCount E c)
                    (\<lambda>projectCount. return (g h receipt projectCount)))) w1))
           = calls w1 @ WriteContract (hivemindAddress c) f # rest \<and> (\<forall>y\<in>set rest. \<not> is_write y)"
  by (auto simp: io_defs getProjectCount_def split: sum.splits prod.splits)

lemma createProject_sf_tail_calls:
  "\<exists>rest. calls (snd (await (writeContract E L f)
              (\<lambda>h. await (waitForTransactionReceipt E h)
                 (\<lambda>_. await (readContract_uint E L Fn_projectCount)
                    (\<lambda>count. return (g h count)))) w1))
           = calls w1 @ WriteContract L f # rest \<and> (\<forall>y\<in>set rest. \<not> is_write y)"
  by (auto simp: io_defs split: sum.splits prod.splits)

lemma await_lift: "await (lift (Inr v)) K = K v"
  by (rule ext) (simp add: await_def lift_def)

lemma protocol_body:
  assumes rd: "read_uint E (usdcAddress c) (Fn_allowance (account_address c) (hivemindAddress c)) (ledger w) = Inr a"
    and tail: "\<And>w1. \<exists>rest. calls (snd (k () w1)) = calls w1 @ WriteContract L f # rest \<and>
                 (\<forall>y\<in>set rest. \<not> is_write y)"
    and X: "X = await (await (ensureApproval E c amount) k) (\<lambda>r. return (g r)) w"
  shows "(amount \<le> int a \<longrightarrow>
           (\<exists>rest. calls (snd X) = calls w @
               ReadContract (usdcAddress c) (Fn_allowance (account_address c) (hivemindAddress c)) #
               WriteContract L f # rest \<and> (\<forall>y\<in>set rest. \<not> is_write y))) \<and>
         (int a < amount \<longrightarrow>
           (submit E (usdcAddress c) (Fn_approve (hivemindAddress c) 1000000000000) (ledger w) = Inl e \<longrightarrow>
              X = (Inl e, w\<lparr>calls := calls w @
                [ReadContract (usdcAddress c) (Fn_allowance (account_address c) (hivemindAddress c)),
                 WriteContract (usdcAddress c) (Fn_approve (hivemindAddress c) 1000000000000)]\<rparr>)) \<and>
           (submit E (usdcAddress c) (Fn_approve (hivemindAddress c) 1000000000000) (ledger w) = Inr (h, sa) \<longrightarrow>
              (confirm E h sa = Inl e' \<longrightarrow>
                 X = (Inl e', w\<lparr>ledger := sa, calls := calls w @
                   [ReadContract (usdcAddress c) (Fn_allowance (account_address c) (hivemindAddress c)),
                    WriteContract (usdcAddress c) (Fn_approve (hivemindAddress c) 1000000000000),
                    WaitForTransactionReceipt h]\<rparr>)) \<and>
              (confirm E h sa = Inr (r, sb) \<longrightarrow>
                 (\<exists>rest. calls (snd X) = calls w @
                     ReadContract (usdcAddress c) (Fn_allowance (account_address c) (hivemindAddress c)) #
                     WriteContract (usdcAddress c) (Fn_approve (hivemindAddress c) 1000000000000) #
                     WaitForTransactionReceipt h #
                     WriteContract L f # rest \<and> (\<forall>y\<in>set rest. \<not> is_write y)))))"
proof (intro conjI impI)
  assume "amount \<le> int a"
  then have "snd X = snd (k () (w\<lparr>calls := calls w @
      [ReadContract (usdcAddress c) (Fn_allowance (account_address c) (hivemindAddress c))]\<rparr>))"
    by (simp add: X await_return_map approval_then(1) [OF rd])
  with tail [of "w\<lparr>calls := calls w @
      [ReadContract (usdcAddress c) (Fn_allowance (account_address c) (hivemindAddress c))]\<rparr>"]
  show "\<exists>rest. calls (snd X) = calls w @
               ReadContract (usdcAddress c) (Fn_allowance (account_address c) (hivemindAddress c)) #
               WriteContract L f # rest \<and> (\<forall>y\<in>set rest. \<not> is_write y)"
    by simp
next
  assume "int a < amount"
    and "submit E (usdcAddress c) (Fn_approve (hivemindAddress c) 1000000000000) (ledger w) = Inl e"
  then show "X = (Inl e, w\<lparr>calls := calls w @
                [ReadContract (usdcAddress c) (Fn_allowance (account_address c) (hivemindAddress c)),
                 WriteContract (usdcAddress c) (Fn_approve (hivemindAddress c) 1000000000000)]\<rparr>)"
    by (simp add: X await_return_map approval_then(2) [OF rd])
next
  assume "int a < amount"
    and "submit E (usdcAddress c) (Fn_approve (hivemindAddress c) 1000000000000) (ledger w) = Inr (h, sa)"
    and "confirm E h sa = Inl e'"
  then show "X = (Inl e', w\<lparr>ledger := sa, calls := calls w @
                   [ReadContract (usdcAddress c) (Fn_allowance (account_address c) (hivemindAddress c)),
                    WriteContract (usdcAddress c) (Fn_approve (hivemindAddress c) 1000000000000),
                    WaitForTransactionReceipt h]\<rparr>)"
    by (simp add: X await_return_map approval_then(3) [OF rd])
next
  assume "int a < amount"
    and "submit E (usdcAddress c) (Fn_approve (hivemindAddress c) 1000000000000) (ledger w) = Inr (h, sa)"
    and "confirm E h sa = Inr (r, sb)"
  then have "snd X = snd (k () (w\<lparr>ledger := sb, calls := calls w @
      [ReadContract (usdcAddress c) (Fn_allowance (account_address c) (hivemindAddress c)),
       WriteContract (usdcAddress c) (Fn_approve (hivemindAddress c) 1000000000000),
       WaitForTransactionReceipt h]\<rparr>))"
    by (simp add: X await_return_map approval_then(4) [OF rd])
  with tail [of "w\<lparr>ledger := sb, calls := calls w @
      [ReadContract (usdcAddress c) (Fn_allowance (account_address c) (hivemindAddress c)),
       WriteContract (usdcAddress c) (Fn_approve (hivemindAddress c) 1000000000000),
       WaitForTransactionReceipt h]\<rparr>"]
  show "\<exists>rest. calls (snd X) = calls w @
                     ReadContract (usdcAddress c) (Fn_allowance (account_address c) (hivemindAddress c)) #
                     WriteContract (usdcAddress c) (Fn_approve (hivemindAddress c) 1000000000000) #
                     WaitForTransactionReceipt h #
                     WriteContract L f # rest \<and> (\<forall>y\<in>set rest. \<not> is_write y)"
    by simp
qed

lemma perform_protocol:
  assumes f: "funding op = Some (Inr amount)" and pos: "0 < amount"
    and rd: "read_uint E (usdcAddress c) (Fn_allowance (account_address c) (hivemindAddress c)) (ledger w) = Inr a"
  shows "(amount \<le> int a \<longrightarrow>
           (\<exists>rest. calls (snd (perform E c op w)) = calls w @
               ReadContract (usdcAddress c) (Fn_allowance (account_address c) (hivemindAddress c)) #
               WriteContract (hivemindAddress c) (primary op amount) # rest \<and>
               (\<forall>y\<in>set rest. \<not> is_write y))) \<and>
         (int a < amount \<longrightarrow>
           (submit E (usdcAddress c) (Fn_approve (hivemindAddress c) 1000000000000) (ledger w) = Inl e \<longrightarrow>
              perform E c op w = (Inl e, w\<lparr>calls := calls w @
                [ReadContract (usdcAddress c) (Fn_allowance (account_address c) (hivemindAddress c)),
                 WriteContract (usdcAddress c) (Fn_approve (hivemindAddress c) 1000000000000)]\<rparr>)) \<and>
           (submit E (usdcAddress c) (Fn_approve (hivemindAddress c) 1000000000000) (ledger w) = Inr (h, sa) \<longrightarrow>
              (confirm E h sa = Inl e' \<longrightarrow>
                 perform E c op w = (Inl e', w\<lparr>ledger := sa, calls := calls w @
                   [ReadContract (usdcAddress c) (Fn_allowance (account_address c) (hivemindAddress c)),
                    WriteContract (usdcAddress c) (Fn_approve (hivemindAddress c) 1000000000000),
                    WaitForTransactionReceipt h]\<rparr>)) \<and>
              (confirm E h sa = Inr (r, sb) \<longrightarrow>
                 (\<exists>rest. calls (snd (perform E c op w)) = calls w @
                     ReadContract (usdcAddress c) (Fn_allowance (account_address c) (hivemindAddress c)) #
                     WriteContract (usdcAddress c) (Fn_approve (hivemindAddress c) 1000000000000) #
                     WaitForTransactionReceipt h #
                     WriteContract (hivemindAddress c) (primary op amount) # rest \<and>
                     (\<forall>y\<in>set rest. \<not> is_write y)))))"
proof (cases op)
  case (Join node x)
  with f pos obtain y where x: "x = Some y" and p: "parseUnits_number y USDC_DECIMALS = Inr amount"
    by (cases x) (auto simp: parseUnits_whole_def)
  let ?k = "\<lambda>_::unit. await (writeContract E (hivemindAddress c) (Fn_joinHive node amount))
               (\<lambda>h. await (waitForTransactionReceipt E h)
                  (\<lambda>receipt. return \<lparr>hash = h, blockNumber = r_blockNumber receipt\<rparr>))"
  have X: "perform E c op w =
      await (await (ensureApproval E c amount) ?k) (\<lambda>r. return (tx_fields r)) w"
    using pos by (simp add: Join x p join_def await_lift cong: if_cong)
  have tail: "\<And>w1. \<exists>rest. calls (snd (?k () w1)) =
      calls w1 @ WriteContract (hivemindAddress c) (primary op amount) # rest \<and>
      (\<forall>y\<in>set rest. \<not> is_write y)"
    using tx_tail_calls [of E "hivemindAddress c" "Fn_joinHive node amount"
        "\<lambda>h receipt. \<lparr>hash = h, blockNumber = r_blockNumber receipt\<rparr>"]
    by (simp add: Join)
  show ?thesis by (rule protocol_body [OF rd tail X])
next
  case (CreateProject nm repo x)
  with f have p: "parseUnits_number x USDC_DECIMALS = Inr amount" by simp
  let ?k = "\<lambda>_::unit. await (writeContract E (hivemindAddress c) (Fn_createProject nm repo amount))
               (\<lambda>h. await (waitForTransactionReceipt E h)
                  (\<lambda>receipt. await (getProjectCount E c)
                     (\<lambda>projectCount.
                        return \<lparr>hash = h, blockNumber = r_blockNumber receipt,
                                projectId = js_minus_one projectCount\<rparr>)))"
  have X: "perform E c op w =
      await (await (ensureApproval E c amount) ?k) (\<lambda>r. return (tx_fields r)) w"
    using pos by (simp add: CreateProject p createProject_def await_lift cong: if_cong)
  have tail: "\<And>w1. \<exists>rest. calls (snd (?k () w1)) =
      calls w1 @ WriteContract (hivemindAddress c) (primary op amount) # rest \<and>
      (\<forall>y\<in>set rest. \<not> is_write y)"
    using createProject_tail_calls [of E c "Fn_createProject nm repo amount"
        "\<lambda>h receipt projectCount. \<lparr>hash = h, blockNumber = r_blockNumber receipt,
                                projectId = js_minus_one projectCount\<rparr>"]
    by (simp add: CreateProject)
  show ?thesis by (rule protocol_body [OF rd tail X])
next
  case (FundProject i x)
  with f have p: "parseUnits_number x USDC_DECIMALS = Inr amount" by simp
  let ?k = "\<lambda>_::unit. await (writeContract E (hivemindAddress c) (Fn_fundProject i amount))
               (\<lambda>h. await (waitForTransactionReceipt E h)
                  (\<lambda>receipt. return \<lparr>hash = h, blockNumber = r_blockNumber receipt\<rparr>))"
  have X: "perform E c op w =
      await (await (ensureApproval E c amount) ?k) (\<lambda>r. return (tx_fields r)) w"
    by (simp add: FundProject p fundProject_def await_lift)
  have tail: "\<And>w1. \<exists>rest. calls (snd (?k () w1)) =
      calls w1 @ WriteContract (hivemindAddress c) (primary op amount) # rest \<and>
      (\<forall>y\<in>set rest. \<not> is_write y)"
    using tx_tail_calls [of E "hivemindAddress c" "Fn_fundProject i amount"
        "\<lambda>h receipt. \<lparr>hash = h, blockNumber = r_blockNumber receipt\<rparr>"]
    by (simp add: FundProject)
  show ?thesis by (rule protocol_body [OF rd tail X])
qed (use f in simp_all)

lemma perform_sf_protocol:
  assumes f: "funding op = Some (Inr amount)" and pos: "0 < amount"
    and rd: "read_uint E USDC_ADDRESS (Fn_allowance (sf_address c) HIVEMIND_ADDRESS) (ledger w) = Inr a"
  shows "(amount \<le> int a \<longrightarrow>
           (\<exists>rest. calls (snd (perform_sf E c op w)) = calls w @
               ReadContract USDC_ADDRESS (Fn_allowance (sf_address c) HIVEMIND_ADDRESS) #
               WriteContract HIVEMIND_ADDRESS (primary op amount) # rest \<and>
               (\<forall>y\<in>set rest. \<not> is_write y))) \<and>
         (int a < amount \<longrightarrow>
           (submit E USDC_ADDRESS (Fn_approve HIVEMIND_ADDRESS 1000000000000) (ledger w) = Inl e \<longrightarrow>
              perform_sf E c op w = (Inl e, w\<lparr>calls := calls w @
                [ReadContract USDC_ADDRESS (Fn_allowance (sf_address c) HIVEMIND_ADDRESS),
                 WriteContract USDC_ADDRESS (Fn_approve HIVEMIND_ADDRESS 1000000000000)]\<rparr>)) \<and>
           (submit E USDC_ADDRESS (Fn_approve HIVEMIND_ADDRESS 1000000000000) (ledger w) = Inr (h, sa) \<longrightarrow>
              (confirm E h sa = Inl e' \<longrightarrow>
                 perform_sf E c op w = (Inl e', w\<lparr>ledger := sa, calls := calls w @
                   [ReadContract USDC_ADDRESS (Fn_allowance (sf_address c) HIVEMIND_ADDRESS),
                    WriteContract USDC_ADDRESS (Fn_approve HIVEMIND_ADDRESS 1000000000000),
                    WaitForTransactionReceipt h]\<rparr>)) \<and>
              (confirm E h sa = Inr (r, sb) \<longrightarrow>
                 (\<exists>rest. calls (snd (perform_sf E c op w)) = calls w @
                     ReadContract USDC_ADDRESS (Fn_allowance (sf_address c) HIVEMIND_ADDRESS) #
                     WriteContract USDC_ADDRESS (Fn_approve HIVEMIND_ADDRESS 1000000000000) #
                     WaitForTransactionReceipt h #
                     WriteContract HIVEMIND_ADDRESS (primary op amount) # rest \<and>
                     (\<forall>y\<in>set rest. \<not> is_write y)))))"
proof -
  let ?c = "as_client c"
  have addr: "usdcAddress ?c = USDC_ADDRESS" "hivemindAddress ?c = HIVEMIND_ADDRESS"
    "account_address ?c = sf_address c"
    by (simp_all add: as_client_def)
  have rd': "read_uint E (usdcAddress ?c) (Fn_allowance (account_address ?c) (hivemindAddress ?c))
      (ledger w) = Inr a"
    using rd by (simp add: addr)
  show ?thesis
  proof (cases op)
    case (Join node x)
    with f pos obtain y where x: "x = Some y" and p: "parseUnits_number y 6 = Inr amount"
      by (cases x) (auto simp: parseUnits_whole_def USDC_DECIMALS_def)
    let ?k = "\<lambda>_::unit. await (writeContract E HIVEMIND_ADDRESS (Fn_joinHive node amount))
                 (\<lambda>h. await (waitForTransactionReceipt E h) (\<lambda>_. return h))"
    have X: "perform_sf E c op w =
        await (await (ensureApproval E ?c amount) ?k) (\<lambda>r. return (id r)) w"
      using pos
      by (simp add: Join x p join_sf_def await_lift approveUsdc_sf_as_client await_return
          cong: if_cong)
    have tail: "\<And>w1. \<exists>rest. calls (snd (?k () w1)) =
        calls w1 @ WriteContract HIVEMIND_ADDRESS (primary op amount) # rest \<and>
        (\<forall>y\<in>set rest. \<not> is_write y)"
      using tx_tail_calls [of E HIVEMIND_ADDRESS "Fn_joinHive node amount" "\<lambda>h receipt. h"]
      by (simp add: Join)
    from protocol_body [OF rd' tail X] show ?thesis by (simp only: addr)
  next
    case (CreateProject nm repo x)
    with f have p: "parseUnits_number x 6 = Inr amount" by (simp add: USDC_DECIMALS_def)
    let ?k = "\<lambda>_::unit. await (writeContract E HIVEMIND_ADDRESS (Fn_createProject nm repo amount))
                 (\<lambda>h. await (waitForTransactionReceipt E h)
                    (\<lambda>_. await (readContract_uint E HIVEMIND_ADDRESS Fn_projectCount)
                       (\<lambda>count. return (h, js_minus_one (Number_of_bigint count)))))"
    have X: "perform_sf E c op w =
        await (await (ensureApproval E ?c amount) ?k) (\<lambda>r. return (fst r)) w"
      by (simp add: CreateProject p createProject_sf_def await_lift approveUsdc_sf_as_client)
    have tail: "\<And>w1. \<exists>rest. calls (snd (?k () w1)) =
        calls w1 @ WriteContract HIVEMIND_ADDRESS (primary op amount) # rest \<and>
        (\<forall>y\<in>set rest. \<not> is_write y)"
      using createProject_sf_tail_calls [of E HIVEMIND_ADDRESS "Fn_createProject nm repo amount"
          "\<lambda>h count. (h, js_minus_one (Number_of_bigint count))"]
      by (simp add: CreateProject)
    from protocol_body [OF rd' tail X] show ?thesis by (simp only: addr)
  next
    case (FundProject i x)
    with f have p: "parseUnits_number x 6 = Inr amount" by (simp add: USDC_DECIMALS_def)
    let ?k = "\<lambda>_::unit. await (writeContract E HIVEMIND_ADDRESS (Fn_fundProject i amount))
                 (\<lambda>h. await (waitForTransactionReceipt E h) (\<lambda>_. return h))"
    have X: "perform_sf E c op w =
        await (await (ensureApproval E ?c amount) ?k) (\<lambda>r. return (id r)) w"
      by (simp add: FundProject p fundProject_sf_def await_lift approveUsdc_sf_as_client
          await_return)
    have tail: "\<And>w1. \<exists>rest. calls (snd (?k () w1)) =
        calls w1 @ WriteContract HIVEMIND_ADDRESS (primary op amount) # rest \<and>
        (\<forall>y\<in>set rest. \<not> is_write y)"
      using tx_tail_calls [of E HIVEMIND_ADDRESS "Fn_fundProject i amount" "\<lambda>h receipt. h"]
      by (simp add: FundProject)
    from protocol_body [OF rd' tail X] show ?thesis by (simp only: addr)
  qed (use f in simp_all)
qed

text \<open>
  C1. Every funding-bearing write (\<open>join\<close>, \<open>createProject\<close> and \<open>fundProject\<close>, in
  \<open>client.ts\<close> and in the single-file SDK, called with an argument that parses to a
  positive amount of smallest units) begins with the allowance sub-protocol, run on that
  amount. Its first call on the RPC surface reads the allowance the caller has granted to
  the ledger contract. When that allowance is at least the amount, the very next call
  submits the primary transaction, carrying the parsed amount: no \<open>approve\<close> is
  submitted. When it is below, exactly one \<open>approve\<close> is submitted next, for \<open>10 ^ 12\<close>
  smallest units (1,000,000 display units), its receipt is waited for, and only then the
  primary transaction is submitted. Nothing after the primary transaction is a
  transaction. When the \<open>approve\<close> is rejected at submission, or the wait for its receipt
  is rejected, the write ends there with that error: the primary transaction is never
  submitted.
\<close>

theorem funding_writes_run_allowance_protocol:
  "(funding op = Some (Inr amount) \<longrightarrow> 0 < amount \<longrightarrow>
    read_uint E (usdcAddress c) (Fn_allowance (account_address c) (hivemindAddress c)) (ledger w) = Inr a \<longrightarrow>
      (amount \<le> int a \<longrightarrow>
         (\<exists>rest. calls (snd (perform E c op w)) = calls w @
             ReadContract (usdcAddress c) (Fn_allowance (account_address c) (hivemindAddress c)) #
             WriteContract (hivemindAddress c) (primary op amount) # rest \<and>
             (\<forall>y\<in>set rest. \<not> is_write y))) \<and>
      (int a < amount \<longrightarrow>
         (submit E (usdcAddress c) (Fn_approve (hivemindAddress c) 1000000000000) (ledger w) = Inl e \<longrightarrow>
            perform E c op w = (Inl e, w\<lparr>calls := calls w @
              [ReadContract (usdcAddress c) (Fn_allowance (account_address c) (hivemindAddress c)),
               WriteContract (usdcAddress c) (Fn_approve (hivemindAddress c) 1000000000000)]\<rparr>)) \<and>
         (submit E (usdcAddress c) (Fn_approve (hivemindAddress c) 1000000000000) (ledger w) = Inr (h, sa) \<longrightarrow>
            (confirm E h sa = Inl e' \<longrightarrow>
               perform E c op w = (Inl e', w\<lparr>ledger := sa, calls := calls w @
                 [ReadContract (usdcAddress c) (Fn_allowance (account_address c) (hivemindAddress c)),
                  WriteContract (usdcAddress c) (Fn_approve (hivemindAddress c) 1000000000000),
                  WaitForTransactionReceipt h]\<rparr>)) \<and>
            (confirm E h sa = Inr (r, sb) \<longrightarrow>
               (\<exists>rest. calls (snd (perform E c op w)) = calls w @
                   ReadContract (usdcAddress c) (Fn_allowance (account_address c) (hivemindAddress c)) #
                   WriteContract (usdcAddress c) (Fn_approve (hivemindAddress c) 1000000000000) #
                   WaitForTransactionReceipt h #
                   WriteContract (hivemindAddress c) (primary op amount) # rest \<and>
                   (\<forall>y\<in>set rest. \<not> is_write y)))))) \<and>
   (funding op = Some (Inr amount) \<longrightarrow> 0 < amount \<longrightarrow>
    read_uint E USDC_ADDRESS (Fn_allowance (sf_address c') HIVEMIND_ADDRESS) (ledger w) = Inr a' \<longrightarrow>
      (amount \<le> int a' \<longrightarrow>
         (\<exists>rest. calls (snd (perform_sf E c' op w)) = calls w @
             ReadContract USDC_ADDRESS (Fn_allowance (sf_address c') HIVEMIND_ADDRESS) #
             WriteContract HIVEMIND_ADDRESS (primary op amount) # rest \<and>
             (\<forall>y\<in>set rest. \<not> is_write y))) \<and>
      (int a' < amount \<longrightarrow>
         (submit E USDC_ADDRESS (Fn_approve HIVEMIND_ADDRESS 1000000000000) (ledger w) = Inl ee \<longrightarrow>
            perform_sf E c' op w = (Inl ee, w\<lparr>calls := calls w @
              [ReadContract USDC_ADDRESS (Fn_allowance (sf_address c') HIVEMIND_ADDRESS),
               WriteContract USDC_ADDRESS (Fn_approve HIVEMIND_ADDRESS 1000000000000)]\<rparr>)) \<and>
         (submit E USDC_ADDRESS (Fn_approve HIVEMIND_ADDRESS 1000000000000) (ledger w) = Inr (hh, saa) \<longrightarrow>
            (confirm E hh saa = Inl ee' \<longrightarrow>
               perform_sf E c' op w = (Inl ee', w\<lparr>ledger := saa, calls := calls w @
                 [ReadContract USDC_ADDRESS (Fn_allowance (sf_address c') HIVEMIND_ADDRESS),
                  WriteContract USDC_ADDRESS (Fn_approve HIVEMIND_ADDRESS 1000000000000),
                  WaitForTransactionReceipt hh]\<rparr>)) \<and>
            (confirm E hh saa = Inr (rr, sbb) \<longrightarrow>
               (\<exists>rest. calls (snd (perform_sf E c' op w)) = calls w @
                   ReadContract USDC_ADDRESS (Fn_allowance (sf_address c') HIVEMIND_ADDRESS) #
                   WriteContract USDC_ADDRESS (Fn_approve HIVEMIND_ADDRESS 1000000000000) #
                   WaitForTransactionReceipt hh #
                   WriteContract HIVEMIND_ADDRESS (primary op amount) # rest \<and>
                   (\<forall>y\<in>set rest. \<not> is_write y))))))"
proof (rule conjI)
  show "funding op = Some (Inr amount) \<longrightarrow> 0 < amount \<longrightarrow>
    read_uint E (usdcAddress c) (Fn_allowance (account_address c) (hivemindAddress c)) (ledger w) = Inr a \<longrightarrow>
      (amount \<le> int a \<longrightarrow>
         (\<exists>rest. calls (snd (perform E c op w)) = calls w @
             ReadContract (usdcAddress c) (Fn_allowance (account_address c) (hivemindAddress c)) #
             WriteContract (hivemindAddress c) (primary op amount) # rest \<and>
             (\<forall>y\<in>set rest. \<not> is_write y))) \<and>
      (int a < amount \<longrightarrow>
         (submit E (usdcAddress c) (Fn_approve (hivemindAddress c) 1000000000000) (ledger w) = Inl e \<longrightarrow>
            perform E c op w = (Inl e, w\<lparr>calls := calls w @
              [ReadContract (usdcAddress c) (Fn_allowance (account_address c) (hivemindAddress c)),
               WriteContract (usdcAddress c) (Fn_approve (hivemindAddress c) 1000000000000)]\<rparr>)) \<and>
         (submit E (usdcAddress c) (Fn_approve (hivemindAddress c) 1000000000000) (ledger w) = Inr (h, sa) \<longrightarrow>
            (confirm E h sa = Inl e' \<longrightarrow>
               perform E c op w = (Inl e', w\<lparr>ledger := sa, calls := calls w @
                 [ReadContract (usdcAddress c) (Fn_allowance (account_address c) (hivemindAddress c)),
                  WriteContract (usdcAddress c) (Fn_approve (hivemindAddress c) 1000000000000),
                  WaitForTransactionReceipt h]\<rparr>)) \<and>
            (confirm E h sa = Inr (r, sb) \<longrightarrow>
               (\<exists>rest. calls (snd (perform E c op w)) = calls w @
                   ReadContract (usdcAddress c) (Fn_allowance (account_address c) (hivemindAddress c)) #
                   WriteContract (usdcAddress c) (Fn_approve (hivemindAddress c) 1000000000000) #
                   WaitForTransactionReceipt h #
                   WriteContract (hivemindAddress c) (primary op amount) # rest \<and>
                   (\<forall>y\<in>set rest. \<not> is_write y)))))"
    by (intro impI, rule perform_protocol)
next
  show "funding op = Some (Inr amount) \<longrightarrow> 0 < amount \<longrightarrow>
    read_uint E USDC_ADDRESS (Fn_allowance (sf_address c') HIVEMIND_ADDRESS) (ledger w) = Inr a' \<longrightarrow>
      (amount \<le> int a' \<longrightarrow>
         (\<exists>rest. calls (snd (perform_sf E c' op w)) = calls w @
             ReadContract USDC_ADDRESS (Fn_allowance (sf_address c') HIVEMIND_ADDRESS) #
             WriteContract HIVEMIND_ADDRESS (primary op amount) # rest \<and>
             (\<forall>y\<in>set rest. \<not> is_write y))) \<and>
      (int a' < amount \<longrightarrow>
         (submit E USDC_ADDRESS (Fn_approve HIVEMIND_ADDRESS 1000000000000) (ledger w) = Inl ee \<longrightarrow>
            perform_sf E c' op w = (Inl ee, w\<lparr>calls := calls w @
              [ReadContract USDC_ADDRESS (Fn_allowance (sf_address c') HIVEMIND_ADDRESS),
               WriteContract USDC_ADDRESS (Fn_approve HIVEMIND_ADDRESS 1000000000000)]\<rparr>)) \<and>
         (submit E USDC_ADDRESS (Fn_approve HIVEMIND_ADDRESS 1000000000000) (ledger w) = Inr (hh, saa) \<longrightarrow>
            (confirm E hh saa = Inl ee' \<longrightarrow>
               perform_sf E c' op w = (Inl ee', w\<lparr>ledger := saa, calls := calls w @
                 [ReadContract USDC_ADDRESS (Fn_allowance (sf_address c') HIVEMIND_ADDRESS),
                  WriteContract USDC_ADDRESS (Fn_approve HIVEMIND_ADDRESS 1000000000000),
                  WaitForTransactionReceipt hh]\<rparr>)) \<and>
            (confirm E hh saa = Inr (rr, sbb) \<longrightarrow>
               (\<exists>rest. calls (snd (perform_sf E c' op w)) = calls w @
                   ReadContract USDC_ADDRESS (Fn_allowance (sf_address c') HIVEMIND_ADDRESS) #
                   WriteContract USDC_ADDRESS (Fn_approve HIVEMIND_ADDRESS 1000000000000) #
                   WaitForTransactionReceipt hh #
                   WriteContract HIVEMIND_ADDRESS (primary op amount) # rest \<and>
                   (\<forall>y\<in>set rest. \<not> is_write y)))))"
    by (intro impI, rule perform_sf_protocol)
qed

theorem funding_writes_run_allowance_protocol_witness:
  "(\<exists>rest. calls (snd (perform mock_env mock_client (CreateProject ''p'' ''r'' 3) world0)) =
       ReadContract ''0x833589fCD6eDb6E08f4c7C32D4f71b54bdA02913''
         (Fn_allowance ''0xme'' ''0xA1021d8287Da2cdFAfFab57CDb150088179e5f5B'') #
       WriteContract ''0xA1021d8287Da2cdFAfFab57CDb150088179e5f5B'' (Fn_createProject ''p'' ''r'' 3000000) # rest \<and>
       (\<forall>y\<in>set rest. \<not> is_write y)) \<and>
   (\<exists>rest. calls (snd (perform mock_env mock_client (Join ''n'' (Some 7)) world0)) =
       ReadContract ''0x833589fCD6eDb6E08f4c7C32D4f71b54bdA02913''
         (Fn_allowance ''0xme'' ''0xA1021d8287Da2cdFAfFab57CDb150088179e5f5B'') #
       WriteContract ''0x833589fCD6eDb6E08f4c7C32D4f71b54bdA02913''
         (Fn_approve ''0xA1021d8287Da2cdFAfFab57CDb150088179e5f5B'' 1000000000000) #
       WaitForTransactionReceipt ''0xa1'' #
       WriteContract ''0xA1021d8287Da2cdFAfFab57CDb150088179e5f5B'' (Fn_joinHive ''n'' 7000000) # rest \<and>
       (\<forall>y\<in>set rest. \<not> is_write y)) \<and>
   perform stalled_env mock_client (FundProject 1 7) world0 =
     (Inl (TransportError ''timeout''),
      world0\<lparr>ledger := mock_chain0\<lparr>m_pending :=
          Some (Fn_approve ''0xA1021d8287Da2cdFAfFab57CDb150088179e5f5B'' 1000000000000)\<rparr>,
        calls :=
        [ReadContract ''0x833589fCD6eDb6E08f4c7C32D4f71b54bdA02913''
         (Fn_allowance ''0xme'' ''0xA1021d8287Da2cdFAfFab57CDb150088179e5f5B''),
         WriteContract ''0x833589fCD6eDb6E08f4c7C32D4f71b54bdA02913''
         (Fn_approve ''0xA1021d8287Da2cdFAfFab57CDb150088179e5f5B'' 1000000000000),
         WaitForTransactionReceipt ''0xa1'']\<rparr>) \<and>
   perform refusing_env mock_client (FundProject 1 7) world0 =
     (Inl (ContractReverted ''rejected''),
      world0\<lparr>calls :=
        [ReadContract ''0x833589fCD6eDb6E08f4c7C32D4f71b54bdA02913''
         (Fn_allowance ''0xme'' ''0xA1021d8287Da2cdFAfFab57CDb150088179e5f5B''),
         WriteContract ''0x833589fCD6eDb6E08f4c7C32D4f71b54bdA02913''
         (Fn_approve ''0xA1021d8287Da2cdFAfFab57CDb150088179e5f5B'' 1000000000000)]\<rparr>) \<and>
   (\<exists>rest. calls (snd (perform_sf mock_env mock_client_sf (CreateProject ''p'' ''r'' 3) world0)) =
       ReadContract ''0x833589fCD6eDb6E08f4c7C32D4f71b54bdA02913''
         (Fn_allowance ''0xme'' ''0xA1021d8287Da2cdFAfFab57CDb150088179e5f5B'') #
       WriteContract ''0xA1021d8287Da2cdFAfFab57CDb150088179e5f5B'' (Fn_createProject ''p'' ''r'' 3000000) # rest \<and>
       (\<forall>y\<in>set rest. \<not> is_write y)) \<and>
   (\<exists>rest. calls (snd (perform_sf mock_env mock_client_sf (Join ''n'' (Some 7)) world0)) =
       ReadContract ''0x833589fCD6eDb6E08f4c7C32D4f71b54bdA02913''
         (Fn_allowance ''0xme'' ''0xA1021d8287Da2cdFAfFab57CDb150088179e5f5B'') #
       WriteContract ''0x833589fCD6eDb6E08f4c7C32D4f71b54bdA02913''
         (Fn_approve ''0xA1021d8287Da2cdFAfFab57CDb150088179e5f5B'' 1000000000000) #
       WaitForTransactionReceipt ''0xa1'' #
       WriteContract ''0xA1021d8287Da2cdFAfFab57CDb150088179e5f5B'' (Fn_joinHive ''n'' 7000000) # rest \<and>
       (\<forall>y\<in>set rest. \<not> is_write y)) \<and>
   perform_sf stalled_env mock_client_sf (FundProject 1 7) world0 =
     (Inl (TransportError ''timeout''),
      world0\<lparr>ledger := mock_chain0\<lparr>m_pending :=
          Some (Fn_approve ''0xA1021d8287Da2cdFAfFab57CDb150088179e5f5B'' 1000000000000)\<rparr>,
        calls :=
        [ReadContract ''0x833589fCD6eDb6E08f4c7C32D4f71b54bdA02913''
         (Fn_allowance ''0xme'' ''0xA1021d8287Da2cdFAfFab57CDb150088179e5f5B''),
         WriteContract ''0x833589fCD6eDb6E08f4c7C32D4f71b54bdA02913''
         (Fn_approve ''0xA1021d8287Da2cdFAfFab57CDb150088179e5f5B'' 1000000000000),
         WaitForTransactionReceipt ''0xa1'']\<rparr>) \<and>
   perform_sf refusing_env mock_client_sf (FundProject 1 7) world0 =
     (Inl (ContractReverted ''rejected''),
      world0\<lparr>calls :=
        [ReadContract ''0x833589fCD6eDb6E08f4c7C32D4f71b54bdA02913''
         (Fn_allowance ''0xme'' ''0xA1021d8287Da2cdFAfFab57CDb150088179e5f5B''),
         WriteContract ''0x833589fCD6eDb6E08f4c7C32D4f71b54bdA02913''
         (Fn_approve ''0xA1021d8287Da2cdFAfFab57CDb150088179e5f5B'' 1000000000000)]\<rparr>)"
  using
    funding_writes_run_allowance_protocol [where E = mock_env and c = mock_client
      and c' = mock_client_sf and w = world0 and a = 5000000 and a' = 5000000
      and op = "CreateProject ''p'' ''r'' 3" and amount = 3000000]
    funding_writes_run_allowance_protocol [where E = mock_env and c = mock_client
      and c' = mock_client_sf and w = world0 and a = 5000000 and a' = 5000000
      and op = "Join ''n'' (Some 7)" and amount = 7000000
      and h = "''0xa1''" and hh = "''0xa1''"
      and sa = "mock_chain0\<lparr>m_pending := Some (Fn_approve ''0xA1021d8287Da2cdFAfFab57CDb150088179e5f5B'' 1000000000000)\<rparr>"
      and saa = "mock_chain0\<lparr>m_pending := Some (Fn_approve ''0xA1021d8287Da2cdFAfFab57CDb150088179e5f5B'' 1000000000000)\<rparr>"
      and r = "\<lparr>r_transactionHash = ''0xa1'', r_blockNumber = 101\<rparr>"
      and rr = "\<lparr>r_transactionHash = ''0xa1'', r_blockNumber = 101\<rparr>"
      and sb = "mock_chain0\<lparr>m_allowance := 1000000000000, m_block := 101\<rparr>"
      and sbb = "mock_chain0\<lparr>m_allowance := 1000000000000, m_block := 101\<rparr>"]
    funding_writes_run_allowance_protocol [where E = stalled_env and c = mock_client
      and c' = mock_client_sf and w = world0 and a = 5000000 and a' = 5000000
      and op = "FundProject 1 7" and amount = 7000000
      and h = "''0xa1''" and hh = "''0xa1''"
      and sa = "mock_chain0\<lparr>m_pending := Some (Fn_approve ''0xA1021d8287Da2cdFAfFab57CDb150088179e5f5B'' 1000000000000)\<rparr>"
      and saa = "mock_chain0\<lparr>m_pending := Some (Fn_approve ''0xA1021d8287Da2cdFAfFab57CDb150088179e5f5B'' 1000000000000)\<rparr>"
      and e' = "TransportError ''timeout''" and ee' = "TransportError ''timeout''"]
    funding_writes_run_allowance_protocol [where E = refusing_env and c = mock_client
      and c' = mock_client_sf and w = world0 and a = 5000000 and a' = 5000000
      and op = "FundProject 1 7" and amount = 7000000
      and e = "ContractReverted ''rejected''" and ee = "ContractReverted ''rejected''"]
  by (simp add: mock_defs stalled_env_def refusing_env_def)

lemma ensureApproval_completes:
  assumes "read_uint E (usdcAddress c) (Fn_allowance (account_address c) (hivemindAddress c)) (ledger w) = Inr a"
    and "ensureApproval E c amount w = (Inr (), w')"
  shows "(amount \<le> int a \<and>
          w' = w\<lparr>calls := calls w @
            [ReadContract (usdcAddress c) (Fn_allowance (account_address c) (hivemindAddress c))]\<rparr>) \<or>
         (int a < amount \<and>
          (\<exists>h sa r sb.
             submit E (usdcAddress c) (Fn_approve (hivemindAddress c) 1000000000000) (ledger w) = Inr (h, sa) \<and>
             confirm E h sa = Inr (r, sb) \<and>
             w' = w\<lparr>ledger := sb, calls := calls w @
               [ReadContract (usdcAddress c) (Fn_allowance (account_address c) (hivemindAddress c)),
                WriteContract (usdcAddress c) (Fn_approve (hivemindAddress c) 1000000000000),
                WaitForTransactionReceipt h]\<rparr>))"
  using assms
  by (auto simp: ensureApproval_def io_defs parseUnits_whole_def USDC_DECIMALS_def
      split: if_splits sum.splits prod.splits)

lemma allowance_after:
  assumes law: "honours_approve E (usdcAddress c) (account_address c) (hivemindAddress c)"
    and rd: "read_uint E (usdcAddress c) (Fn_allowance (account_address c) (hivemindAddress c)) (ledger w) = Inr a"
    and ok: "ensureApproval E c amount w = (Inr (), w')"
  shows "\<exists>b. read_uint E (usdcAddress c) (Fn_allowance (account_address c) (hivemindAddress c)) (ledger w') = Inr b \<and>
           min amount 1000000000000 \<le> int b \<and>
           (int a < amount \<longrightarrow> b = 1000000000000 \<and>
              (\<exists>h. calls w' = calls w @
                 [ReadContract (usdcAddress c) (Fn_allowance (account_address c) (hivemindAddress c)),
                  WriteContract (usdcAddress c) (Fn_approve (hivemindAddress c) 1000000000000),
                  WaitForTransactionReceipt h])) \<and>
           (1000000000000 < amount \<longrightarrow> int a < amount \<longrightarrow> int b < amount)"
  using ensureApproval_completes [OF rd ok]
proof (elim disjE conjE exE)
  assume "amount \<le> int a" and "w' = w\<lparr>calls := calls w @
      [ReadContract (usdcAddress c) (Fn_allowance (account_address c) (hivemindAddress c))]\<rparr>"
  with rd show ?thesis by auto
next
  fix h sa r sb
  assume lt: "int a < amount"
    and sub: "submit E (usdcAddress c) (Fn_approve (hivemindAddress c) 1000000000000) (ledger w) = Inr (h, sa)"
    and con: "confirm E h sa = Inr (r, sb)"
    and w': "w' = w\<lparr>ledger := sb, calls := calls w @
      [ReadContract (usdcAddress c) (Fn_allowance (account_address c) (hivemindAddress c)),
       WriteContract (usdcAddress c) (Fn_approve (hivemindAddress c) 1000000000000),
       WaitForTransactionReceipt h]\<rparr>"
  from law sub con have
    "read_uint E (usdcAddress c) (Fn_allowance (account_address c) (hivemindAddress c)) sb
       = Inr (nat 1000000000000)"
    unfolding honours_approve_def by blast
  with lt w' show ?thesis by auto
qed

lemma primary_submitted:
  assumes rd: "read_uint E (usdcAddress c) (Fn_allowance (account_address c) (hivemindAddress c)) (ledger w) = Inr a"
    and ok: "ensureApproval E c amount w = (Inr (), w')"
    and f: "funding op = Some (Inr amount)" and pos: "0 < amount"
  shows "WriteContract (hivemindAddress c) (primary op amount) \<in> set (calls (snd (perform E c op w)))"
  using ensureApproval_completes [OF rd ok]
proof (elim disjE conjE exE)
  assume "amount \<le> int a"
  with perform_protocol [OF f pos rd] show ?thesis by auto
next
  fix h sa r sb
  assume "int a < amount"
    and "submit E (usdcAddress c) (Fn_approve (hivemindAddress c) 1000000000000) (ledger w) = Inr (h, sa)"
    and "confirm E h sa = Inr (r, sb)"
  with perform_protocol [OF f pos rd, of _ h sa _ r sb] show ?thesis by auto
qed

lemma primary_submitted_sf:
  assumes rd: "read_uint E USDC_ADDRESS (Fn_allowance (sf_address c) HIVEMIND_ADDRESS) (ledger w) = Inr a"
    and ok: "approveUsdc_sf E c amount w = (Inr (), w')"
    and f: "funding op = Some (Inr amount)" and pos: "0 < amount"
  shows "WriteContract HIVEMIND_ADDRESS (primary op amount) \<in> set (calls (snd (perform_sf E c op w)))"
proof -
  have rd': "read_uint E (usdcAddress (as_client c))
      (Fn_allowance (account_address (as_client c)) (hivemindAddress (as_client c))) (ledger w) = Inr a"
    using rd by (simp add: as_client_def)
  from ok have ok': "ensureApproval E (as_client c) amount w = (Inr (), w')"
    by (simp add: approveUsdc_sf_as_client)
  from ensureApproval_completes [OF rd' ok'] show ?thesis
  proof (elim disjE conjE exE)
    assume "amount \<le> int a"
    with perform_sf_protocol [OF f pos rd] show ?thesis by auto
  next
    fix h sa r sb
    assume "int a < amount"
      and "submit E (usdcAddress (as_client c))
             (Fn_approve (hivemindAddress (as_client c)) 1000000000000) (ledger w) = Inr (h, sa)"
      and "confirm E h sa = Inr (r, sb)"
    with perform_sf_protocol [OF f pos rd, of _ h sa _ r sb] show ?thesis
      by (auto simp: as_client_def)
  qed
qed

lemma allowance_after_sf:
  assumes law: "honours_approve E USDC_ADDRESS (sf_address c) HIVEMIND_ADDRESS"
    and rd: "read_uint E USDC_ADDRESS (Fn_allowance (sf_address c) HIVEMIND_ADDRESS) (ledger w) = Inr a"
    and ok: "approveUsdc_sf E c amount w = (Inr (), w')"
  shows "\<exists>b. read_uint E USDC_ADDRESS (Fn_allowance (sf_address c) HIVEMIND_ADDRESS) (ledger w') = Inr b \<and>
           min amount 1000000000000 \<le> int b \<and>
           (int a < amount \<longrightarrow> b = 1000000000000 \<and>
              (\<exists>h. calls w' = calls w @
                 [ReadContract USDC_ADDRESS (Fn_allowance (sf_address c) HIVEMIND_ADDRESS),
                  WriteContract USDC_ADDRESS (Fn_approve HIVEMIND_ADDRESS 1000000000000),
                  WaitForTransactionReceipt h])) \<and>
           (1000000000000 < amount \<longrightarrow> int a < amount \<longrightarrow> int b < amount)"
proof -
  have law': "honours_approve E (usdcAddress (as_client c)) (account_address (as_client c))
      (hivemindAddress (as_client c))"
    using law by (simp add: as_client_def)
  have rd': "read_uint E (usdcAddress (as_client c))
      (Fn_allowance (account_address (as_client c)) (hivemindAddress (as_client c))) (ledger w) = Inr a"
    using rd by (simp add: as_client_def)
  from ok have ok': "ensureApproval E (as_client c) amount w = (Inr (), w')"
    by (simp add: approveUsdc_sf_as_client)
  from allowance_after [OF law' rd' ok'] show ?thesis
    by (simp add: as_client_def)
qed

lemma mock_honours_approve: "honours_approve mock_env token owner spender"
  by (auto simp: honours_approve_def mock_env_def mock_confirm_def)

text \<open>
  C10, as amended. Let the token honour a confirmed \<open>approve\<close>, and let
  \<open>ensureApproval amount\<close> (\<open>approveUsdc\<close> in the single-file SDK) complete without error.
  Then the caller's allowance towards the ledger contract is afterwards at least
  \<open>min amount (10 ^ 12)\<close>. When the approval ran, that is when the allowance was below the
  amount, it was the one \<open>approve\<close> for exactly \<open>10 ^ 12\<close>, whatever the amount, and the
  allowance afterwards is \<open>10 ^ 12\<close>: for an amount above \<open>10 ^ 12\<close> it is still below the
  amount. Nothing checks it again: every funding-bearing write with that amount (\<open>join\<close>,
  \<open>createProject\<close>, \<open>fundProject\<close>) submits its primary transaction all the same.
\<close>

theorem approval_reaches_ceiling:
  "(honours_approve E (usdcAddress c) (account_address c) (hivemindAddress c) \<longrightarrow>
    read_uint E (usdcAddress c) (Fn_allowance (account_address c) (hivemindAddress c)) (ledger w) = Inr a \<longrightarrow>
    ensureApproval E c amount w = (Inr (), w') \<longrightarrow>
    (\<exists>b. read_uint E (usdcAddress c) (Fn_allowance (account_address c) (hivemindAddress c)) (ledger w') = Inr b \<and>
         min amount 1000000000000 \<le> int b \<and>
         (int a < amount \<longrightarrow> b = 1000000000000 \<and>
            (\<exists>h. calls w' = calls w @
               [ReadContract (usdcAddress c) (Fn_allowance (account_address c) (hivemindAddress c)),
                WriteContract (usdcAddress c) (Fn_approve (hivemindAddress c) 1000000000000),
                WaitForTransactionReceipt h])) \<and>
         (1000000000000 < amount \<longrightarrow> int a < amount \<longrightarrow> int b < amount)) \<and>
    (funding op = Some (Inr amount) \<longrightarrow> 0 < amount \<longrightarrow>
       WriteContract (hivemindAddress c) (primary op amount)
         \<in> set (calls (snd (perform E c op w))))) \<and>
   (honours_approve E USDC_ADDRESS (sf_address c') HIVEMIND_ADDRESS \<longrightarrow>
    read_uint E USDC_ADDRESS (Fn_allowance (sf_address c') HIVEMIND_ADDRESS) (ledger w) = Inr a' \<longrightarrow>
    approveUsdc_sf E c' amount w = (Inr (), w'') \<longrightarrow>
    (\<exists>b. read_uint E USDC_ADDRESS (Fn_allowance (sf_address c') HIVEMIND_ADDRESS) (ledger w'') = Inr b \<and>
         min amount 1000000000000 \<le> int b \<and>
         (int a' < amount \<longrightarrow> b = 1000000000000 \<and>
            (\<exists>h. calls w'' = calls w @
               [ReadContract USDC_ADDRESS (Fn_allowance (sf_address c') HIVEMIND_ADDRESS),
                WriteContract USDC_ADDRESS (Fn_approve HIVEMIND_ADDRESS 1000000000000),
                WaitForTransactionReceipt h])) \<and>
         (1000000000000 < amount \<longrightarrow> int a' < amount \<longrightarrow> int b < amount)) \<and>
    (funding op' = Some (Inr amount) \<longrightarrow> 0 < amount \<longrightarrow>
       WriteContract HIVEMIND_ADDRESS (primary op' amount)
         \<in> set (calls (snd (perform_sf E c' op' w)))))"
proof (intro conjI impI)
  assume "honours_approve E (usdcAddress c) (account_address c) (hivemindAddress c)"
    and "read_uint E (usdcAddress c) (Fn_allowance (account_address c) (hivemindAddress c)) (ledger w) = Inr a"
    and "ensureApproval E c amount w = (Inr (), w')"
  then show "\<exists>b. read_uint E (usdcAddress c) (Fn_allowance (account_address c) (hivemindAddress c)) (ledger w') = Inr b \<and>
         min amount 1000000000000 \<le> int b \<and>
         (int a < amount \<longrightarrow> b = 1000000000000 \<and>
            (\<exists>h. calls w' = calls w @
               [ReadContract (usdcAddress c) (Fn_allowance (account_address c) (hivemindAddress c)),
                WriteContract (usdcAddress c) (Fn_approve (hivemindAddress c) 1000000000000),
                WaitForTransactionReceipt h])) \<and>
         (1000000000000 < amount \<longrightarrow> int a < amount \<longrightarrow> int b < amount)"
    by (rule allowance_after)
next
  assume "read_uint E (usdcAddress c) (Fn_allowance (account_address c) (hivemindAddress c)) (ledger w) = Inr a"
    and "ensureApproval E c amount w = (Inr (), w')"
    and "funding op = Some (Inr amount)" and "0 < amount"
  then show "WriteContract (hivemindAddress c) (primary op amount)
         \<in> set (calls (snd (perform E c op w)))"
    by (rule primary_submitted)
next
  assume "honours_approve E USDC_ADDRESS (sf_address c') HIVEMIND_ADDRESS"
    and "read_uint E USDC_ADDRESS (Fn_allowance (sf_address c') HIVEMIND_ADDRESS) (ledger w) = Inr a'"
    and "approveUsdc_sf E c' amount w = (Inr (), w'')"
  then show "\<exists>b. read_uint E USDC_ADDRESS (Fn_allowance (sf_address c') HIVEMIND_ADDRESS) (ledger w'') = Inr b \<and>
         min amount 1000000000000 \<le> int b \<and>
         (int a' < amount \<longrightarrow> b = 1000000000000 \<and>
            (\<exists>h. calls w'' = calls w @
               [ReadContract USDC_ADDRESS (Fn_allowance (sf_address c') HIVEMIND_ADDRESS),
                WriteContract USDC_ADDRESS (Fn_approve HIVEMIND_ADDRESS 1000000000000),
                WaitForTransactionReceipt h])) \<and>
         (1000000000000 < amount \<longrightarrow> int a' < amount \<longrightarrow> int b < amount)"
    by (rule allowance_after_sf)
next
  assume "read_uint E USDC_ADDRESS (Fn_allowance (sf_address c') HIVEMIND_ADDRESS) (ledger w) = Inr a'"
    and "approveUsdc_sf E c' amount w = (Inr (), w'')"
    and "funding op' = Some (Inr amount)" and "0 < amount"
  then show "WriteContract HIVEMIND_ADDRESS (primary op' amount)
         \<in> set (calls (snd (perform_sf E c' op' w)))"
    by (rule primary_submitted_sf)
qed

theorem approval_reaches_ceiling_witness:
  "honours_approve mock_env (usdcAddress mock_client) (account_address mock_client)
      (hivemindAddress mock_client) \<and>
   honours_approve mock_env USDC_ADDRESS (sf_address mock_client_sf) HIVEMIND_ADDRESS \<and>
   ensureApproval mock_env mock_client 2000000000000 world0 =
     (Inr (), world0\<lparr>ledger := mock_chain0\<lparr>m_allowance := 1000000000000, m_block := 101\<rparr>,
        calls :=
          [ReadContract (usdcAddress mock_client)
             (Fn_allowance (account_address mock_client) (hivemindAddress mock_client)),
           WriteContract (usdcAddress mock_client)
             (Fn_approve (hivemindAddress mock_client) 1000000000000),
           WaitForTransactionReceipt ''0xa1'']\<rparr>) \<and>
   read_uint mock_env (usdcAddress mock_client)
      (Fn_allowance (account_address mock_client) (hivemindAddress mock_client))
      (mock_chain0\<lparr>m_allowance := 1000000000000, m_block := 101\<rparr>) = Inr 1000000000000 \<and>
   min 2000000000000 1000000000000 \<le> int 1000000000000 \<and>
   int 1000000000000 < 2000000000000 \<and>
   WriteContract (hivemindAddress mock_client) (Fn_joinHive ''n'' 2000000000000)
      \<in> set (calls (snd (perform mock_env mock_client (Join ''n'' (Some 2000000)) world0))) \<and>
   WriteContract HIVEMIND_ADDRESS (Fn_createProject ''p'' ''r'' 2000000000000)
      \<in> set (calls (snd (perform_sf mock_env mock_client_sf (CreateProject ''p'' ''r'' 2000000) world0)))"
  using approval_reaches_ceiling [where E = mock_env and c = mock_client and c' = mock_client_sf
      and w = world0 and a = 5000000 and a' = 5000000 and amount = 2000000000000
      and op = "Join ''n'' (Some 2000000)" and op' = "CreateProject ''p'' ''r'' 2000000"
      and w' = "world0\<lparr>ledger := mock_chain0\<lparr>m_allowance := 1000000000000, m_block := 101\<rparr>,
          calls :=
            [ReadContract (usdcAddress mock_client)
               (Fn_allowance (account_address mock_client) (hivemindAddress mock_client)),
             WriteContract (usdcAddress mock_client)
               (Fn_approve (hivemindAddress mock_client) 1000000000000),
             WaitForTransactionReceipt ''0xa1'']\<rparr>"
      and w'' = "world0\<lparr>ledger := mock_chain0\<lparr>m_allowance := 1000000000000, m_block := 101\<rparr>,
          calls :=
            [ReadContract USDC_ADDRESS (Fn_allowance (sf_address mock_client_sf) HIVEMIND_ADDRESS),
             WriteContract USDC_ADDRESS (Fn_approve HIVEMIND_ADDRESS 1000000000000),
             WaitForTransactionReceipt ''0xa1'']\<rparr>"]
    mock_honours_approve [of "usdcAddress mock_client" "account_address mock_client"
      "hivemindAddress mock_client"]
    mock_honours_approve [of USDC_ADDRESS "sf_address mock_client_sf" HIVEMIND_ADDRESS]
  by (simp add: ensureApproval_def approveUsdc_sf_def io_defs mock_defs)

text \<open>
  C10, as stated, fails twice. "For every amount greater than \<open>10 ^ 12\<close> the allowance
  remains below the amount" fails when the allowance was not below it: with
  \<open>5 * 10 ^ 12\<close> granted and \<open>2 * 10 ^ 12\<close> requested, no approval runs and the allowance
  stays \<open>5 * 10 ^ 12\<close>. And completion alone does not give \<open>min amount (10 ^ 12)\<close>:
  neither client looks at the receipt, so when the \<open>approve\<close> is mined reverted,
  \<open>ensureApproval 7000000\<close> completes with the allowance still \<open>5000000\<close>.
\<close>

theorem approval_ceiling_counterexample:
  "ensureApproval mock_env mock_client 2000000000000 world_rich =
     (Inr (), world_rich\<lparr>calls :=
        [ReadContract (usdcAddress mock_client)
           (Fn_allowance (account_address mock_client) (hivemindAddress mock_client))]\<rparr>) \<and>
   approveUsdc_sf mock_env mock_client_sf 2000000000000 world_rich =
     (Inr (), world_rich\<lparr>calls :=
        [ReadContract USDC_ADDRESS (Fn_allowance (sf_address mock_client_sf) HIVEMIND_ADDRESS)]\<rparr>) \<and>
   (1000000000000 :: int) < 2000000000000 \<and>
   read_uint mock_env (usdcAddress mock_client)
      (Fn_allowance (account_address mock_client) (hivemindAddress mock_client))
      (ledger world_rich) = Inr 5000000000000 \<and>
   \<not> int 5000000000000 < 2000000000000 \<and>
   ensureApproval reverting_env mock_client 7000000 world0 =
     (Inr (), world0\<lparr>ledger := mock_chain0\<lparr>m_block := 101\<rparr>,
        calls :=
          [ReadContract (usdcAddress mock_client)
             (Fn_allowance (account_address mock_client) (hivemindAddress mock_client)),
           WriteContract (usdcAddress mock_client)
             (Fn_approve (hivemindAddress mock_client) 1000000000000),
           WaitForTransactionReceipt ''0xa1'']\<rparr>) \<and>
   read_uint reverting_env (usdcAddress mock_client)
      (Fn_allowance (account_address mock_client) (hivemindAddress mock_client))
      (mock_chain0\<lparr>m_block := 101\<rparr>) = Inr 5000000 \<and>
   \<not> min 7000000 1000000000000 \<le> int 5000000"
  by (simp add: ensureApproval_def approveUsdc_sf_def io_defs mock_defs world_rich_def
      reverting_env_def)

end
